theory Spec2Isabelle
  imports Main "HOL-Library.Sublist"
begin

section \<open>JavaScript values\<close>

text \<open>
  The SDK in \<^verbatim>\<open>packages/gauss/src\<close> is a thin TypeScript layer over two native modules.
  Everything that crosses into a native module is a JavaScript value, and the modules are
  typed \<^verbatim>\<open>any\<close>, so the embedding carries an explicit datatype of JavaScript values.
  Numbers are carried through the layer unchanged and never computed with; the model keeps
  the integers, written in decimal as JavaScript writes the integers it represents exactly.
  Object properties are kept in insertion order, as JavaScript does.
\<close>

datatype jsval =
    Undefined
  | Null
  | Bool bool
  | Num int
  | Str string
  | Arr "jsval list"
  | Obj "(string \<times> jsval) list"

text \<open>Thrown values. The SDK itself only throws \<^verbatim>\<open>new Error(message)\<close>; the other two
  constructors are what the runtime raises on a property read of \<^verbatim>\<open>null\<close> and on malformed
  JSON text. The wording of those two is the JavaScript engine's own, and nothing below
  depends on it.\<close>

datatype error = Error string | TypeError string | SyntaxError string

text \<open>A computation that may throw and that acts on the state \<open>'h\<close> outside the SDK
  (the native engine and whatever the host's tool implementations touch).\<close>

type_synonym ('a, 'h) io = "'h \<Rightarrow> (error + 'a) \<times> 'h"

definition then_io :: "('a, 'h) io \<Rightarrow> ('a \<Rightarrow> error + 'b) \<Rightarrow> ('b, 'h) io" where
  "then_io m f h = (case m h of (Inl e, h') \<Rightarrow> (Inl e, h') | (Inr a, h') \<Rightarrow> (f a, h'))"

subsection \<open>Property reads and the nullish operators\<close>

definition nullish :: "jsval \<Rightarrow> bool" where
  "nullish v = (v = Undefined \<or> v = Null)"

text \<open>\<^verbatim>\<open>v ?? d\<close>\<close>

definition coalesce :: "jsval \<Rightarrow> jsval \<Rightarrow> jsval" where
  "coalesce v d = (if nullish v then d else v)"

text \<open>Reading an optional field of a typed host object: an absent field reads as
  \<^verbatim>\<open>undefined\<close>.\<close>

definition field :: "('a \<Rightarrow> jsval) \<Rightarrow> 'a option \<Rightarrow> jsval" where
  "field f x = (case x of None \<Rightarrow> Undefined | Some v \<Rightarrow> f v)"

text \<open>\<^verbatim>\<open>v.k\<close> on an untyped value: a read on \<^verbatim>\<open>null\<close> or \<^verbatim>\<open>undefined\<close> throws, a missing
  property reads as \<^verbatim>\<open>undefined\<close>. None of the property names the SDK reads is a built-in
  property of a string, number, boolean or array.\<close>

fun get_prop :: "jsval \<Rightarrow> string \<Rightarrow> error + jsval" where
  "get_prop Undefined k = Inl (TypeError (''Cannot read properties of undefined (reading '' @ k @ '')''))"
| "get_prop Null k = Inl (TypeError (''Cannot read properties of null (reading '' @ k @ '')''))"
| "get_prop (Obj kvs) k = Inr (case map_of kvs k of None \<Rightarrow> Undefined | Some v \<Rightarrow> v)"
| "get_prop v k = Inr Undefined"

subsection \<open>Text of a value\<close>

definition digit_char :: "nat \<Rightarrow> char" where
  "digit_char d = char_of (of_char (CHR ''0'') + d)"

fun nat_text :: "nat \<Rightarrow> string" where
  "nat_text n = (if n < 10 then [digit_char n] else nat_text (n div 10) @ [digit_char (n mod 10)])"

declare nat_text.simps [simp del]

definition int_text :: "int \<Rightarrow> string" where
  "int_text i = (if i < 0 then CHR ''-'' # nat_text (nat (- i)) else nat_text (nat i))"

definition join :: "string \<Rightarrow> string list \<Rightarrow> string" where
  "join sep xs = (case xs of [] \<Rightarrow> [] | y # ys \<Rightarrow> y @ concat (map (\<lambda>z. sep @ z) ys))"

text \<open>The string conversion that a template literal applies to an interpolated value.\<close>

fun to_string :: "jsval \<Rightarrow> string" where
  "to_string Undefined = ''undefined''"
| "to_string Null = ''null''"
| "to_string (Bool b) = (if b then ''true'' else ''false'')"
| "to_string (Num i) = int_text i"
| "to_string (Str s) = s"
| "to_string (Arr xs) =
     join '','' (map (\<lambda>x. if x = Undefined \<or> x = Null then [] else to_string x) xs)"
| "to_string (Obj kvs) = ''[object Object]''"

definition hex_char :: "nat \<Rightarrow> char" where
  "hex_char d = (if d < 10 then digit_char d else char_of (of_char (CHR ''a'') + (d - 10)))"

definition escape_char :: "char \<Rightarrow> string" where
  "escape_char c =
     (if c = CHR 0x22 then [CHR 0x5C, CHR 0x22]
      else if c = CHR 0x5C then [CHR 0x5C, CHR 0x5C]
      else if c = CHR 0x08 then [CHR 0x5C, CHR ''b'']
      else if c = CHR 0x0C then [CHR 0x5C, CHR ''f'']
      else if c = CHR 0x0A then [CHR 0x5C, CHR ''n'']
      else if c = CHR 0x0D then [CHR 0x5C, CHR ''r'']
      else if c = CHR 0x09 then [CHR 0x5C, CHR ''t'']
      else if (of_char c :: nat) < 32
        then [CHR 0x5C, CHR ''u'', CHR ''0'', CHR ''0'',
              hex_char (of_char c div 16), hex_char (of_char c mod 16)]
      else [c])"

definition quote :: "string \<Rightarrow> string" where
  "quote s = [CHR 0x22] @ concat (map escape_char s) @ [CHR 0x22]"

text \<open>\<^verbatim>\<open>JSON.stringify\<close>: a property whose value is \<^verbatim>\<open>undefined\<close> is left out of an object,
  an \<^verbatim>\<open>undefined\<close> array element is written \<^verbatim>\<open>null\<close>, and \<^verbatim>\<open>JSON.stringify(undefined)\<close>
  is \<^verbatim>\<open>undefined\<close>, not a string.\<close>

fun json_text :: "jsval \<Rightarrow> string" where
  "json_text Undefined = ''null''"
| "json_text Null = ''null''"
| "json_text (Bool b) = (if b then ''true'' else ''false'')"
| "json_text (Num i) = int_text i"
| "json_text (Str s) = quote s"
| "json_text (Arr xs) = ''['' @ join '','' (map json_text xs) @ '']''"
| "json_text (Obj kvs) =
     ''{'' @ join '',''
        (map (\<lambda>kv. quote (fst kv) @ '':'' @ json_text (snd kv))
           (filter (\<lambda>kv. snd kv \<noteq> Undefined) kvs)) @ ''}''"

definition JSON_stringify :: "jsval \<Rightarrow> jsval" where
  "JSON_stringify v = (if v = Undefined then Undefined else Str (json_text v))"

text \<open>Object spread \<^verbatim>\<open>{ ...v, k: x }\<close>: the own enumerable properties of \<open>v\<close> in order,
  then \<open>k\<close> set to \<open>x\<close> (in place when \<open>v\<close> already has \<open>k\<close>).\<close>

fun spread :: "jsval \<Rightarrow> (string \<times> jsval) list" where
  "spread (Obj kvs) = kvs"
| "spread (Arr xs) = map (\<lambda>i. (nat_text i, xs ! i)) [0..<length xs]"
| "spread (Str s) = map (\<lambda>i. (nat_text i, Str [s ! i])) [0..<length s]"
| "spread v = []"

definition set_prop :: "(string \<times> jsval) list \<Rightarrow> string \<Rightarrow> jsval \<Rightarrow> (string \<times> jsval) list" where
  "set_prop kvs k x =
     (if k \<in> fst ` set kvs then map (\<lambda>kv. if fst kv = k then (k, x) else kv) kvs
      else kvs @ [(k, x)])"

section \<open>types.ts\<close>

record ProviderOptions =
  apiKey :: string
  baseUrl :: "string option"
  timeoutMs :: "int option"
  maxRetries :: "int option"
  organization :: "string option"

datatype Role = System | User | Assistant

fun role_text :: "Role \<Rightarrow> string" where
  "role_text System = ''system''"
| "role_text User = ''user''"
| "role_text Assistant = ''assistant''"

record Message =
  role :: Role
  content :: string

text \<open>A tool definition without its \<^verbatim>\<open>execute\<close> (the type \<^verbatim>\<open>Omit<ToolDef, 'execute'>\<close> of the
  source), and the full definition as its extension. A host implementation receives the
  call's arguments and may act on the outside state.\<close>

record ToolSchema =
  name :: string
  description :: string
  parameters :: "jsval option"

record 'h ToolDef = ToolSchema +
  execute :: "(jsval \<Rightarrow> (jsval, 'h) io) option"

record 'h AgentOptions =
  instructions :: "string option"
  maxSteps :: "int option"
  temperature :: "int option"
  topP :: "int option"
  maxTokens :: "int option"
  seed :: "int option"
  stopOnTool :: "string option"
  outputSchema :: "jsval option"
  tools :: "'h ToolDef list option"

section \<open>backend.ts\<close>

text \<open>
  A native module is an untyped object: a method is selected by name and applied to
  positional arguments, one of which may be a callback into the host. Calling a method
  the module does not have throws, which is one of the outcomes the function can give.
\<close>

datatype 'h arg = Val jsval | Callback "string \<Rightarrow> (jsval, 'h) io"

type_synonym 'h native_module = "string \<Rightarrow> 'h arg list \<Rightarrow> (jsval, 'h) io"

text \<open>The \<^verbatim>\<open>Backend\<close> interface. Handles and results are the values the native module
  gave; the casts of the source (\<^verbatim>\<open>as GenerateResult\<close>) check nothing.\<close>

record 'h Backend =
  createProvider :: "string \<Rightarrow> string \<Rightarrow> ProviderOptions \<Rightarrow> (jsval, 'h) io"
  destroyProvider :: "jsval \<Rightarrow> (unit, 'h) io"
  generate :: "jsval \<Rightarrow> Message list \<Rightarrow> int option \<Rightarrow> int option \<Rightarrow> (jsval, 'h) io"
  generateWithTools ::
    "jsval \<Rightarrow> Message list \<Rightarrow> ToolSchema list \<Rightarrow> int option \<Rightarrow> int option \<Rightarrow> (jsval, 'h) io"
  agentRun ::
    "string \<Rightarrow> jsval \<Rightarrow> ToolSchema list \<Rightarrow> Message list \<Rightarrow> 'h AgentOptions \<Rightarrow> (jsval, 'h) io"
  agentRunWithToolExecutor ::
    "string \<Rightarrow> jsval \<Rightarrow> ToolSchema list \<Rightarrow> Message list \<Rightarrow> 'h AgentOptions \<Rightarrow>
     (string \<Rightarrow> (jsval, 'h) io) \<Rightarrow> (jsval, 'h) io"

text \<open>What the JavaScript runtime supplies: \<^verbatim>\<open>JSON.parse\<close> and the module loader
  \<^verbatim>\<open>require\<close>, which either yields the module or throws.\<close>

record 'h runtime =
  JSON_parse :: "string \<Rightarrow> error + jsval"
  require :: "string \<Rightarrow> ('h native_module, 'h) io"

subsection \<open>createNapiBackend\<close>

text \<open>The object literals that \<^verbatim>\<open>createNapiBackend\<close> writes out in several of its
  methods.\<close>

definition napi_provider_options :: "ProviderOptions \<Rightarrow> jsval" where
  "napi_provider_options options = Obj
     [(''apiKey'', Str (apiKey options)),
      (''baseUrl'', coalesce (field Str (baseUrl options)) Null),
      (''timeoutMs'', coalesce (field Num (timeoutMs options)) Null),
      (''maxRetries'', coalesce (field Num (maxRetries options)) Null),
      (''organization'', coalesce (field Str (organization options)) Null)]"

definition napi_messages :: "Message list \<Rightarrow> jsval" where
  "napi_messages messages =
     Arr (map (\<lambda>m. Obj [(''role'', Str (role_text (role m))), (''content'', Str (content m))]) messages)"

definition napi_tools :: "ToolSchema list \<Rightarrow> jsval" where
  "napi_tools ts =
     Arr (map (\<lambda>t. Obj [(''name'', Str (name t)),
                         (''description'', Str (description t)),
                         (''parameters'', coalesce (field id (parameters t)) Null)]) ts)"

definition napi_agent_options :: "'h AgentOptions \<Rightarrow> jsval" where
  "napi_agent_options options = Obj
     [(''instructions'', coalesce (field Str (instructions options)) Null),
      (''maxSteps'', coalesce (field Num (maxSteps options)) Null),
      (''temperature'', coalesce (field Num (temperature options)) Null),
      (''topP'', coalesce (field Num (topP options)) Null),
      (''maxTokens'', coalesce (field Num (maxTokens options)) Null),
      (''seed'', coalesce (field Num (seed options)) Null),
      (''stopOnTool'', coalesce (field Str (stopOnTool options)) Null),
      (''outputSchema'', coalesce (field id (outputSchema options)) Null)]"

definition napi_agent_result :: "jsval \<Rightarrow> error + jsval" where
  "napi_agent_result result =
     (case get_prop result ''text'' of Inl e \<Rightarrow> Inl e | Inr text \<Rightarrow>
     (case get_prop result ''steps'' of Inl e \<Rightarrow> Inl e | Inr steps \<Rightarrow>
     (case get_prop result ''inputTokens'' of Inl e \<Rightarrow> Inl e | Inr inputTokens \<Rightarrow>
     (case get_prop result ''outputTokens'' of Inl e \<Rightarrow> Inl e | Inr outputTokens \<Rightarrow>
     (case get_prop result ''structuredOutput'' of Inl e \<Rightarrow> Inl e | Inr structuredOutput \<Rightarrow>
        Inr (Obj [(''text'', text),
                  (''steps'', steps),
                  (''usage'', Obj [(''inputTokens'', inputTokens), (''outputTokens'', outputTokens)]),
                  (''structuredOutput'', coalesce structuredOutput Undefined)]))))))"

definition createNapiBackend :: "'h native_module \<Rightarrow> 'h Backend" where
  "createNapiBackend napi = \<lparr>
     createProvider = (\<lambda>type model options.
       napi ''createProvider'' [Val (Str type), Val (Str model), Val (napi_provider_options options)]),
     destroyProvider = (\<lambda>handle.
       then_io (napi ''destroyProvider'' [Val handle]) (\<lambda>_. Inr ())),
     generate = (\<lambda>handle messages temperature maxTokens.
       napi ''generate''
         [Val handle, Val (napi_messages messages),
          Val (coalesce (field Num temperature) Null),
          Val (coalesce (field Num maxTokens) Null)]),
     generateWithTools = (\<lambda>handle messages tools temperature maxTokens.
       napi ''generateWithTools''
         [Val handle, Val (napi_messages messages), Val (napi_tools tools),
          Val (coalesce (field Num temperature) Null),
          Val (coalesce (field Num maxTokens) Null)]),
     agentRun = (\<lambda>name providerHandle tools messages options.
       then_io
         (napi ''agentRun''
            [Val (Str name), Val providerHandle, Val (napi_tools tools),
             Val (napi_messages messages), Val (napi_agent_options options)])
         napi_agent_result),
     agentRunWithToolExecutor = (\<lambda>name providerHandle tools messages options toolExecutor.
       then_io
         (napi ''agentRunWithToolExecutor''
            [Val (Str name), Val providerHandle, Val (napi_tools tools),
             Val (napi_messages messages), Val (napi_agent_options options),
             Callback toolExecutor])
         napi_agent_result) \<rparr>"

subsection \<open>createWasmBackend\<close>

text \<open>\<^verbatim>\<open>JSON.stringify(messages)\<close> and the options literal of \<^verbatim>\<open>agentRun\<close>.\<close>

definition wasm_messages :: "Message list \<Rightarrow> jsval" where
  "wasm_messages messages = JSON_stringify
     (Arr (map (\<lambda>m. Obj [(''role'', Str (role_text (role m))), (''content'', Str (content m))]) messages))"

definition wasm_agent_options :: "'h AgentOptions \<Rightarrow> jsval" where
  "wasm_agent_options options = Obj
     [(''instructions'', field Str (instructions options)),
      (''maxSteps'', field Num (maxSteps options)),
      (''temperature'', field Num (temperature options)),
      (''topP'', field Num (topP options)),
      (''maxTokens'', field Num (maxTokens options)),
      (''stopOnTool'', field Str (stopOnTool options)),
      (''outputSchema'', field id (outputSchema options))]"

definition wasm_generate ::
  "'h runtime \<Rightarrow> 'h native_module \<Rightarrow> jsval \<Rightarrow> Message list \<Rightarrow> int option \<Rightarrow> int option \<Rightarrow> (jsval, 'h) io" where
  "wasm_generate rt wasm = (\<lambda>handle messages temperature maxTokens.
     wasm ''generate''
       [Val handle, Val (wasm_messages messages),
        Val (coalesce (field Num temperature) Undefined),
        Val (coalesce (field Num maxTokens) Undefined)])"

text \<open>\<^verbatim>\<open>agentRun\<close> of the WASM backend is a definition of its own because
  \<^verbatim>\<open>agentRunWithToolExecutor\<close> calls it through \<^verbatim>\<open>this\<close>.\<close>

definition wasm_agentRun ::
  "'h runtime \<Rightarrow> 'h native_module \<Rightarrow> string \<Rightarrow> jsval \<Rightarrow> ToolSchema list \<Rightarrow> Message list \<Rightarrow>
   'h AgentOptions \<Rightarrow> (jsval, 'h) io" where
  "wasm_agentRun rt wasm = (\<lambda>name providerHandle unused_tools messages options.
     then_io
       (wasm ''agentRun''
          [Val (Str name), Val providerHandle, Val (wasm_messages messages),
           Val (JSON_stringify (wasm_agent_options options))])
       (\<lambda>json. JSON_parse rt (to_string json)))"

definition createWasmBackend :: "'h runtime \<Rightarrow> 'h native_module \<Rightarrow> 'h Backend" where
  "createWasmBackend rt wasm = \<lparr>
     createProvider = (\<lambda>type model options.
       wasm ''createProvider''
         [Val (Str type), Val (Str model), Val (Str (apiKey options)),
          Val (coalesce (field Str (baseUrl options)) Undefined)]),
     destroyProvider = (\<lambda>handle.
       then_io (wasm ''destroyProvider'' [Val handle]) (\<lambda>_. Inr ())),
     generate = (\<lambda>handle messages temperature maxTokens.
       then_io (wasm_generate rt wasm handle messages temperature maxTokens)
         (\<lambda>json. JSON_parse rt (to_string json))),
     generateWithTools = (\<lambda>handle messages unused_tools temperature maxTokens.
       then_io (wasm_generate rt wasm handle messages temperature maxTokens)
         (\<lambda>json. case JSON_parse rt (to_string json) of Inl e \<Rightarrow> Inl e
            | Inr v \<Rightarrow> Inr (Obj (set_prop (spread v) ''toolCalls'' (Arr []))))),
     agentRun = wasm_agentRun rt wasm,
     agentRunWithToolExecutor = (\<lambda>name providerHandle unused_tools messages options unused_toolExecutor.
       wasm_agentRun rt wasm name providerHandle unused_tools messages options) \<rparr>"

subsection \<open>Detection and the memoized backend\<close>

definition detectBackend :: "'h runtime \<Rightarrow> ('h Backend, 'h) io" where
  "detectBackend rt h =
     (case require rt ''@giulio-leone/gauss-core-napi'' h of
        (Inr napi, h1) \<Rightarrow> (Inr (createNapiBackend napi), h1)
      | (Inl _, h1) \<Rightarrow>
          (case require rt ''@giulio-leone/gauss-core-wasm'' h1 of
             (Inr wasm, h2) \<Rightarrow> (Inr (createWasmBackend rt wasm), h2)
           | (Inl _, h2) \<Rightarrow>
               (Inl (Error (''No Gauss backend found. Install @giulio-leone/gauss-core-napi (Node.js) ''
                            @ ''or @giulio-leone/gauss-core-wasm (Browser/Edge).'')), h2)))"

text \<open>
  The state of one process: the module variable \<^verbatim>\<open>_backend\<close>, the \<^verbatim>\<open>Provider\<close> objects
  (they are mutable and shared between their owner and the agents built on them, so they
  live in a store and are referred to by address), and the state outside the SDK.
\<close>

record Provider =
  handle :: jsval
  destroyed :: bool

record 'h world =
  backend_var :: "'h Backend option"
  providers :: "nat \<Rightarrow> Provider"
  next_ref :: nat
  outside :: 'h

definition in_world :: "('a, 'h) io \<Rightarrow> 'h world \<Rightarrow> (error + 'a) \<times> 'h world" where
  "in_world m w = (case m (outside w) of (r, h') \<Rightarrow> (r, w\<lparr>outside := h'\<rparr>))"

definition getBackend :: "'h runtime \<Rightarrow> 'h world \<Rightarrow> (error + 'h Backend) \<times> 'h world" where
  "getBackend rt w =
     (case backend_var w of
        Some b \<Rightarrow> (Inr b, w)
      | None \<Rightarrow>
          (case detectBackend rt (outside w) of
             (Inl e, h') \<Rightarrow> (Inl e, w\<lparr>outside := h'\<rparr>)
           | (Inr b, h') \<Rightarrow> (Inr b, w\<lparr>backend_var := Some b, outside := h'\<rparr>)))"

definition setBackend :: "'h Backend \<Rightarrow> 'h world \<Rightarrow> 'h world" where
  "setBackend backend w = w\<lparr>backend_var := Some backend\<rparr>"

section \<open>provider.ts\<close>

record GenerateOptions =
  gen_temperature :: "int option"
  gen_maxTokens :: "int option"

definition new_Provider :: "jsval \<Rightarrow> 'h world \<Rightarrow> nat \<times> 'h world" where
  "new_Provider h w =
     (next_ref w,
      w\<lparr>providers := (providers w)(next_ref w := \<lparr>handle = h, destroyed = False\<rparr>),
        next_ref := Suc (next_ref w)\<rparr>)"

definition Provider_getHandle :: "nat \<Rightarrow> 'h world \<Rightarrow> error + jsval" where
  "Provider_getHandle this w =
     (if destroyed (providers w this) then Inl (Error ''Provider has been destroyed'')
      else Inr (handle (providers w this)))"

definition Provider_generate ::
  "'h runtime \<Rightarrow> nat \<Rightarrow> Message list \<Rightarrow> GenerateOptions option \<Rightarrow> 'h world \<Rightarrow> (error + jsval) \<times> 'h world" where
  "Provider_generate rt this messages options w =
     (if destroyed (providers w this) then (Inl (Error ''Provider has been destroyed''), w)
      else
        (case getBackend rt w of
           (Inl e, w1) \<Rightarrow> (Inl e, w1)
         | (Inr backend, w1) \<Rightarrow>
             in_world
               (generate backend (handle (providers w1 this)) messages
                  (Option.bind options gen_temperature) (Option.bind options gen_maxTokens))
               w1))"

definition Provider_destroy :: "'h runtime \<Rightarrow> nat \<Rightarrow> 'h world \<Rightarrow> (error + unit) \<times> 'h world" where
  "Provider_destroy rt this w =
     (if \<not> destroyed (providers w this) then
        (case getBackend rt w of
           (Inl e, w1) \<Rightarrow> (Inl e, w1)
         | (Inr backend, w1) \<Rightarrow>
             (case destroyProvider backend (handle (providers w1 this)) (outside w1) of
                (Inl e, h') \<Rightarrow> (Inl e, w1\<lparr>outside := h'\<rparr>)
              | (Inr _, h') \<Rightarrow>
                  (Inr (),
                   w1\<lparr>outside := h',
                      providers := (providers w1)(this := (providers w1 this)\<lparr>destroyed := True\<rparr>)\<rparr>)))
      else (Inr (), w))"

definition createProvider_factory ::
  "'h runtime \<Rightarrow> string \<Rightarrow> string \<Rightarrow> ProviderOptions \<Rightarrow> 'h world \<Rightarrow> (error + nat) \<times> 'h world" where
  "createProvider_factory rt type model options w =
     (case getBackend rt w of
        (Inl e, w1) \<Rightarrow> (Inl e, w1)
      | (Inr backend, w1) \<Rightarrow>
          (case createProvider backend type model options (outside w1) of
             (Inl e, h') \<Rightarrow> (Inl e, w1\<lparr>outside := h'\<rparr>)
           | (Inr h, h') \<Rightarrow>
               (case new_Provider h (w1\<lparr>outside := h'\<rparr>) of (this, w2) \<Rightarrow> (Inr this, w2))))"

section \<open>agent.ts\<close>

record 'h Agent =
  agent_name :: string
  agent_provider :: nat
  agent_options :: "'h AgentOptions"

definition no_options :: "'h AgentOptions" where
  "no_options = \<lparr>instructions = None, maxSteps = None, temperature = None, topP = None,
     maxTokens = None, seed = None, stopOnTool = None, outputSchema = None, tools = None\<rparr>"

definition createAgent :: "string \<Rightarrow> nat \<Rightarrow> 'h AgentOptions option \<Rightarrow> 'h Agent" where
  "createAgent n p options =
     \<lparr>agent_name = n, agent_provider = p,
      agent_options = (case options of None \<Rightarrow> no_options | Some opts \<Rightarrow> opts)\<rparr>"

text \<open>The locals of \<^verbatim>\<open>Agent.run\<close>: the tool table \<^verbatim>\<open>this.options.tools ?? []\<close>, the
  schemas, the mode test, the executor map filled by the loop over the tools (a later
  entry of the same name replaces an earlier one, as \<^verbatim>\<open>Map.set\<close> does), and the closure
  handed to the engine.\<close>

definition tool_table :: "'h Agent \<Rightarrow> 'h ToolDef list" where
  "tool_table this = (case tools (agent_options this) of None \<Rightarrow> [] | Some ts \<Rightarrow> ts)"

definition toolSchemas :: "'h ToolDef list \<Rightarrow> ToolSchema list" where
  "toolSchemas ts =
     map (\<lambda>t. \<lparr>name = name t, description = description t, parameters = parameters t\<rparr>) ts"

definition hasExecuteFns :: "'h ToolDef list \<Rightarrow> bool" where
  "hasExecuteFns ts = list_ex (\<lambda>t. execute t \<noteq> None) ts"

definition executorMap :: "'h ToolDef list \<Rightarrow> string \<Rightarrow> (jsval \<Rightarrow> (jsval, 'h) io) option" where
  "executorMap ts =
     fold (\<lambda>t m. case execute t of Some f \<Rightarrow> m(name t \<mapsto> f) | None \<Rightarrow> m) ts Map.empty"

text \<open>\<^verbatim>\<open>executorMap.get(tool)\<close> with an untyped key: only a string can be a key of this
  map.\<close>

definition map_get :: "(string \<Rightarrow> 'v option) \<Rightarrow> jsval \<Rightarrow> 'v option" where
  "map_get m k = (case k of Str s \<Rightarrow> m s | _ \<Rightarrow> None)"

definition toolExecutor ::
  "'h runtime \<Rightarrow> (string \<Rightarrow> (jsval \<Rightarrow> (jsval, 'h) io) option) \<Rightarrow> string \<Rightarrow> (jsval, 'h) io" where
  "toolExecutor rt em callJson h =
     (case JSON_parse rt callJson of
        Inl e \<Rightarrow> (Inl e, h)
      | Inr call \<Rightarrow>
          (case get_prop call ''tool'' of
             Inl e \<Rightarrow> (Inl e, h)
           | Inr tool \<Rightarrow>
               (case get_prop call ''args'' of
                  Inl e \<Rightarrow> (Inl e, h)
                | Inr args \<Rightarrow>
                    (case map_get em tool of
                       None \<Rightarrow> (Inl (Error (''No execute function for tool: '' @ to_string tool)), h)
                     | Some fn \<Rightarrow> then_io (fn args) (\<lambda>result. Inr (JSON_stringify result)) h))))"

definition Agent_run ::
  "'h runtime \<Rightarrow> 'h Agent \<Rightarrow> Message list \<Rightarrow> 'h world \<Rightarrow> (error + jsval) \<times> 'h world" where
  "Agent_run rt this messages w =
     (case getBackend rt w of
        (Inl e, w1) \<Rightarrow> (Inl e, w1)
      | (Inr backend, w1) \<Rightarrow>
          (let ts = tool_table this in
           if hasExecuteFns ts then
             (case Provider_getHandle (agent_provider this) w1 of
                Inl e \<Rightarrow> (Inl e, w1)
              | Inr h \<Rightarrow>
                  in_world
                    (agentRunWithToolExecutor backend (agent_name this) h (toolSchemas ts) messages
                       (agent_options this) (toolExecutor rt (executorMap ts)))
                    w1)
           else
             (case Provider_getHandle (agent_provider this) w1 of
                Inl e \<Rightarrow> (Inl e, w1)
              | Inr h \<Rightarrow>
                  in_world
                    (agentRun backend (agent_name this) h (toolSchemas ts) messages
                       (agent_options this))
                    w1)))"

section \<open>Sequences of calls\<close>

text \<open>\<open>n\<close> calls of \<^verbatim>\<open>destroy()\<close> on one provider, one after the other; a call that throws
  ends the sequence, as an uncaught exception would.\<close>

fun destroy_times :: "nat \<Rightarrow> 'h runtime \<Rightarrow> nat \<Rightarrow> 'h world \<Rightarrow> (error + unit) \<times> 'h world" where
  "destroy_times 0 rt this w = (Inr (), w)"
| "destroy_times (Suc n) rt this w =
     (case Provider_destroy rt this w of
        (Inl e, w') \<Rightarrow> (Inl e, w')
      | (Inr _, w') \<Rightarrow> destroy_times n rt this w')"

text \<open>The invariant that links the two pieces of host state: a process that holds a
  destroyed provider has its backend in place.\<close>

definition consistent :: "'h world \<Rightarrow> bool" where
  "consistent w \<longleftrightarrow> (\<forall>r. destroyed (providers w r) \<longrightarrow> backend_var w \<noteq> None)"

section \<open>The engine behind agentRunWithToolExecutor\<close>

text \<open>Modelled from the spec: the step loop of the native engine, which is Rust code that
  the TypeScript sources only call. The spec says that for each tool invocation the engine
  calls back through the bridge and resumes only once the result has arrived, that step
  N+1 begins only after the tool results of step N are resolved, and that an error of the
  callback fails the whole run with no partial result. Which tools a run requests is
  decided by the language model, so the model takes the requests as a script: the call
  envelopes of each tool step, in order.\<close>

fun engine_calls :: "(string \<Rightarrow> (jsval, 'h) io) \<Rightarrow> string list \<Rightarrow> (unit, 'h) io" where
  "engine_calls ex [] h = (Inr (), h)"
| "engine_calls ex (c # cs) h =
     (case ex c h of (Inl e, h') \<Rightarrow> (Inl e, h') | (Inr _, h') \<Rightarrow> engine_calls ex cs h')"

text \<open>Modelled from the spec: the native module's \<^verbatim>\<open>agentRunWithToolExecutor\<close> as the spec's
  scenarios describe it. The engine runs the scripted tool steps through the executor it
  was given and then produces the final answer; the result carries the final text and the
  step count, where the final answer is a step of its own (one tool step followed by the
  answer gives two steps), and the token counts. No other method is modelled.\<close>

definition engine :: "string list list \<Rightarrow> string \<Rightarrow> jsval \<Rightarrow> jsval \<Rightarrow> 'h native_module" where
  "engine script final tokens_in tokens_out method args h =
     (if method = ''agentRunWithToolExecutor'' then
        (case args of
           [Val n, Val p, Val ts, Val ms, Val os, Callback ex] \<Rightarrow>
             then_io (engine_calls ex (concat script))
               (\<lambda>_. Inr (Obj [(''text'', Str final),
                              (''steps'', Num (int (length script) + 1)),
                              (''inputTokens'', tokens_in),
                              (''outputTokens'', tokens_out)])) h
         | _ \<Rightarrow> (Inl (TypeError ''agentRunWithToolExecutor: bad arguments''), h))
      else (Inl (TypeError (method @ '' is not a function'')), h))"

section \<open>Test doubles\<close>

text \<open>Concrete modules, runtimes and worlds on which the theorems below are evaluated.
  The outside state of all of them is a log of calls.\<close>

type_synonym call_log = "(string \<times> jsval list) list"

definition arg_vals :: "'h arg list \<Rightarrow> jsval list" where
  "arg_vals as = concat (map (\<lambda>a. case a of Val v \<Rightarrow> [v] | Callback _ \<Rightarrow> []) as)"

text \<open>A native module that logs every call with its value arguments and gives a fixed
  reply.\<close>

definition recorder :: "jsval \<Rightarrow> call_log native_module" where
  "recorder reply method args log = (Inr reply, log @ [(method, arg_vals args)])"

text \<open>\<^verbatim>\<open>JSON.parse\<close> on a known set of texts, a loader with a known set of installed
  packages that logs each attempt, and the runtime built from both.\<close>

definition parse_table :: "(string \<times> jsval) list \<Rightarrow> string \<Rightarrow> error + jsval" where
  "parse_table known s =
     (case map_of known s of Some v \<Rightarrow> Inr v | None \<Rightarrow> Inl (SyntaxError s))"

definition loader ::
  "(string \<times> call_log native_module) list \<Rightarrow> string \<Rightarrow> (call_log native_module, call_log) io" where
  "loader installed pkg log =
     (case map_of installed pkg of
        Some m \<Rightarrow> (Inr m, log @ [(''require'', [Str pkg])])
      | None \<Rightarrow> (Inl (Error (''Cannot find module '' @ pkg)), log @ [(''require'', [Str pkg])]))"

definition test_runtime ::
  "(string \<times> call_log native_module) list \<Rightarrow> (string \<times> jsval) list \<Rightarrow> call_log runtime" where
  "test_runtime installed known = \<lparr>JSON_parse = parse_table known, require = loader installed\<rparr>"

definition node_runtime :: "call_log runtime" where
  "node_runtime = test_runtime [(''@giulio-leone/gauss-core-napi'', recorder Null)] []"

text \<open>A process that has not resolved its backend yet, and one with a backend in place
  and a provider of handle 7 at every address, live or destroyed.\<close>

definition fresh_world :: "'h \<Rightarrow> 'h world" where
  "fresh_world h =
     \<lparr>backend_var = None, providers = (\<lambda>_. \<lparr>handle = Undefined, destroyed = False\<rparr>),
      next_ref = 0, outside = h\<rparr>"

definition world_with :: "'h Backend \<Rightarrow> bool \<Rightarrow> 'h \<Rightarrow> 'h world" where
  "world_with backend gone h =
     \<lparr>backend_var = Some backend,
      providers = (\<lambda>_. \<lparr>handle = Num 7, destroyed = gone\<rparr>),
      next_ref = 1,
      outside = h\<rparr>"

text \<open>A backend object written by hand, as a test would pass to \<^verbatim>\<open>setBackend\<close>.\<close>

definition stub_backend :: "'h Backend" where
  "stub_backend =
     \<lparr>createProvider = (\<lambda>_ _ _ h. (Inr (Num 0), h)),
      destroyProvider = (\<lambda>_ h. (Inr (), h)),
      generate = (\<lambda>_ _ _ _ h. (Inr Null, h)),
      generateWithTools = (\<lambda>_ _ _ _ _ h. (Inr Null, h)),
      agentRun = (\<lambda>_ _ _ _ _ h. (Inr Null, h)),
      agentRunWithToolExecutor = (\<lambda>_ _ _ _ _ _ h. (Inr Null, h))\<rparr>"

definition key_only :: ProviderOptions where
  "key_only = \<lparr>apiKey = ''k'', baseUrl = None, timeoutMs = None, maxRetries = None, organization = None\<rparr>"

text \<open>A host tool that logs the arguments it was called with, a tool table entry that
  carries it, one that carries none, and an agent over a given table.\<close>

definition logging_tool :: "jsval \<Rightarrow> jsval \<Rightarrow> (jsval, call_log) io" where
  "logging_tool reply args log = (Inr reply, log @ [(''execute'', [args])])"

definition tool_A :: "call_log ToolDef" where
  "tool_A = \<lparr>name = ''A'', description = ''answers'', parameters = None,
             execute = Some (logging_tool (Str ''42''))\<rparr>"

definition tool_B :: "call_log ToolDef" where
  "tool_B = \<lparr>name = ''B'', description = ''schema only'', parameters = None, execute = None\<rparr>"

definition agent_with :: "call_log ToolDef list \<Rightarrow> call_log Agent" where
  "agent_with ts = createAgent ''helper'' 0 (Some (no_options\<lparr>tools := Some ts\<rparr>))"

text \<open>A native module that logs every call and whose \<^verbatim>\<open>destroyProvider\<close> throws, and a tool
  whose host implementation resolves to \<^verbatim>\<open>undefined\<close>.\<close>

definition failing_release :: "jsval \<Rightarrow> call_log native_module" where
  "failing_release reply method args log =
     (if method = ''destroyProvider'' then Inl (Error ''release failed'') else Inr reply,
      log @ [(method, arg_vals args)])"

definition tool_U :: "call_log ToolDef" where
  "tool_U = \<lparr>name = ''U'', description = ''returns nothing'', parameters = None,
             execute = Some (logging_tool Undefined)\<rparr>"

text \<open>Two call envelopes and the texts under which the test runtime knows them.\<close>

definition call_of :: "string \<Rightarrow> jsval" where
  "call_of n = Obj [(''tool'', Str n), (''args'', Obj [(''q'', Num 1)])]"

definition calls_known :: "(string \<times> jsval) list" where
  "calls_known = [(''call A'', call_of ''A''), (''call B'', call_of ''B'')]"

section \<open>Properties\<close>

subsection \<open>The memoized backend\<close>

lemma getBackend_Inr:
  "getBackend rt w = (Inr b, w1) \<Longrightarrow>
     backend_var w1 = Some b \<and> providers w1 = providers w \<and> next_ref w1 = next_ref w"
  by (auto simp: getBackend_def split: option.splits prod.splits sum.splits)

lemma detect_node:
  "detectBackend node_runtime [] =
     (Inr (createNapiBackend (recorder Null)), [(''require'', [Str ''@giulio-leone/gauss-core-napi''])])"
  by (simp add: detectBackend_def node_runtime_def test_runtime_def loader_def)

subsection \<open>Provider lifecycle\<close>

lemma destroy_destroyed:
  "destroyed (providers w this) \<Longrightarrow> Provider_destroy rt this w = (Inr (), w)"
  by (simp add: Provider_destroy_def)

lemma generate_destroyed:
  "destroyed (providers w this) \<Longrightarrow>
     Provider_generate rt this messages options w = (Inl (Error ''Provider has been destroyed''), w)"
  by (simp add: Provider_generate_def)

lemma destroy_times_destroyed:
  "destroyed (providers w this) \<Longrightarrow> destroy_times n rt this w = (Inr (), w)"
  by (induction n) (simp_all add: destroy_destroyed)

lemma destroy_first:
  assumes "\<not> destroyed (providers w this)" and "Provider_destroy rt this w = (Inr (), w1)"
  shows "\<exists>backend w0. getBackend rt w = (Inr backend, w0) \<and>
           destroyProvider backend (handle (providers w this)) (outside w0) = (Inr (), outside w1) \<and>
           w1 = w0\<lparr>outside := outside w1,
                   providers := (providers w)(this := (providers w this)\<lparr>destroyed := True\<rparr>)\<rparr>"
  using assms
  by (auto simp: Provider_destroy_def split: prod.splits sum.splits dest!: getBackend_Inr)

lemma destroy_Inr_destroyed:
  "Provider_destroy rt this w = (Inr (), w1) \<Longrightarrow> destroyed (providers w1 this)"
  by (auto simp: Provider_destroy_def split: prod.splits sum.splits if_splits)

text \<open>A provider is only ever marked destroyed by a \<^verbatim>\<open>destroy()\<close> that went through the
  backend, so a process that holds a destroyed provider has its backend in place.\<close>

lemma destroy_sets_backend:
  "\<not> destroyed (providers w this) \<Longrightarrow> Provider_destroy rt this w = (Inr (), w1) \<Longrightarrow>
     backend_var w1 \<noteq> None"
  by (auto simp: Provider_destroy_def split: prod.splits sum.splits dest!: getBackend_Inr)

text \<open>A provider that \<^verbatim>\<open>createProvider\<close> returned is live, holds the handle the backend
  gave, and lives in a process whose backend is in place.\<close>

lemma created_provider_live:
  "createProvider_factory rt ptype model options w = (Inr this, w1) \<Longrightarrow>
     \<not> destroyed (providers w1 this) \<and> backend_var w1 \<noteq> None \<and>
     (\<exists>backend w0 h'. getBackend rt w = (Inr backend, w0) \<and>
        createProvider backend ptype model options (outside w0) = (Inr (handle (providers w1 this)), h'))"
  by (auto simp: createProvider_factory_def new_Provider_def
      split: prod.splits sum.splits dest!: getBackend_Inr)

text \<open>The invariant holds when no provider is destroyed, in particular when a process
  starts, and every operation of the SDK keeps it.\<close>

lemma consistent_start: "(\<forall>r. \<not> destroyed (providers w r)) \<Longrightarrow> consistent w"
  by (simp add: consistent_def)

lemma getBackend_keeps:
  "getBackend rt w = (r, w1) \<Longrightarrow>
     providers w1 = providers w \<and> next_ref w1 = next_ref w \<and>
     (backend_var w \<noteq> None \<longrightarrow> backend_var w1 \<noteq> None)"
  by (auto simp: getBackend_def split: option.splits prod.splits sum.splits)

lemma consistent_getBackend: "consistent w \<Longrightarrow> getBackend rt w = (r, w1) \<Longrightarrow> consistent w1"
  by (auto simp: consistent_def dest!: getBackend_keeps)

lemma consistent_setBackend: "consistent (setBackend b w)"
  by (simp add: consistent_def setBackend_def)

lemma consistent_outside: "consistent w \<Longrightarrow> consistent (w\<lparr>outside := h\<rparr>)"
  by (simp add: consistent_def)

lemma in_world_keeps:
  "in_world m w = (r, w1) \<Longrightarrow> \<exists>h. w1 = w\<lparr>outside := h\<rparr>"
  by (auto simp: in_world_def split: prod.splits)

lemma consistent_destroy:
  "consistent w \<Longrightarrow> Provider_destroy rt this w = (r, w1) \<Longrightarrow> consistent w1"
  by (auto simp: Provider_destroy_def consistent_def
      split: if_splits prod.splits sum.splits dest!: getBackend_keeps getBackend_Inr)

lemma consistent_generate:
  "consistent w \<Longrightarrow> Provider_generate rt this messages options w = (r, w1) \<Longrightarrow> consistent w1"
  by (auto simp: Provider_generate_def
      split: if_splits prod.splits sum.splits
      dest!: in_world_keeps intro: consistent_getBackend consistent_outside)

lemma consistent_createProvider:
  "consistent w \<Longrightarrow> createProvider_factory rt ptype model options w = (r, w1) \<Longrightarrow> consistent w1"
  by (auto simp: createProvider_factory_def new_Provider_def consistent_def
      split: prod.splits sum.splits dest!: getBackend_keeps getBackend_Inr)

lemma consistent_run:
  "consistent w \<Longrightarrow> Agent_run rt this messages w = (r, w1) \<Longrightarrow> consistent w1"
  by (auto simp: Agent_run_def Let_def
      split: if_splits prod.splits sum.splits
      dest!: in_world_keeps intro: consistent_getBackend consistent_outside)

text \<open>No operation of the SDK clears the mark: a provider that is destroyed stays
  destroyed (for \<^verbatim>\<open>createProvider\<close>, which allocates a new object, this is said of the
  objects that exist already).\<close>

lemma destroyed_stays_destroy:
  "destroyed (providers w r) \<Longrightarrow> Provider_destroy rt this w = (res, w1) \<Longrightarrow>
     destroyed (providers w1 r)"
  by (auto simp: Provider_destroy_def split: if_splits prod.splits sum.splits dest!: getBackend_keeps)

lemma destroyed_stays_generate:
  "destroyed (providers w r) \<Longrightarrow> Provider_generate rt this messages options w = (res, w1) \<Longrightarrow>
     destroyed (providers w1 r)"
  by (auto simp: Provider_generate_def split: if_splits prod.splits sum.splits
      dest!: getBackend_keeps in_world_keeps)

lemma destroyed_stays_run:
  "destroyed (providers w r) \<Longrightarrow> Agent_run rt this messages w = (res, w1) \<Longrightarrow>
     destroyed (providers w1 r)"
  by (auto simp: Agent_run_def Let_def split: if_splits prod.splits sum.splits
      dest!: getBackend_keeps in_world_keeps)

lemma destroyed_stays_setBackend:
  "destroyed (providers w r) \<Longrightarrow> destroyed (providers (setBackend b w) r)"
  by (simp add: setBackend_def)

lemma destroyed_stays_createProvider:
  "destroyed (providers w r) \<Longrightarrow> r < next_ref w \<Longrightarrow>
     createProvider_factory rt ptype model options w = (res, w1) \<Longrightarrow>
     destroyed (providers w1 r) \<and> r < next_ref w1"
  by (auto simp: createProvider_factory_def new_Provider_def
      split: prod.splits sum.splits dest!: getBackend_keeps)

text \<open>
  C1, as the claim states it, fails: \<^verbatim>\<open>destroy()\<close> marks the provider destroyed only after
  \<^verbatim>\<open>backend.destroyProvider\<close> has returned. With a backend whose release throws, the first
  \<^verbatim>\<open>destroy()\<close> raises and leaves the provider live; the second \<^verbatim>\<open>destroy()\<close> raises again
  and calls \<^verbatim>\<open>backend.destroyProvider\<close> a second time; and a \<^verbatim>\<open>generate()\<close> after the first
  \<^verbatim>\<open>destroy()\<close> reaches the backend and returns its reply.
\<close>

theorem destroy_raises_counterexample:
  "Provider_destroy node_runtime 0 (world_with (createNapiBackend (failing_release Null)) False []) =
     (Inl (Error ''release failed''),
      world_with (createNapiBackend (failing_release Null)) False [(''destroyProvider'', [Num 7])]) \<and>
   Provider_destroy node_runtime 0
       (world_with (createNapiBackend (failing_release Null)) False [(''destroyProvider'', [Num 7])]) =
     (Inl (Error ''release failed''),
      world_with (createNapiBackend (failing_release Null)) False
        [(''destroyProvider'', [Num 7]), (''destroyProvider'', [Num 7])]) \<and>
   Provider_generate node_runtime 0 [] None
       (world_with (createNapiBackend (failing_release Null)) False [(''destroyProvider'', [Num 7])]) =
     (Inr Null,
      world_with (createNapiBackend (failing_release Null)) False
        [(''destroyProvider'', [Num 7]), (''generate'', [Num 7, Arr [], Null, Null])])"
  by (simp add: Provider_destroy_def Provider_generate_def getBackend_def world_with_def in_world_def
      createNapiBackend_def then_io_def failing_release_def arg_vals_def napi_messages_def
      coalesce_def nullish_def field_def)

text \<open>
  C1, amended. Take a live provider and a \<^verbatim>\<open>destroy()\<close> on it that returns normally,
  leaving the world \<open>w1\<close>. That call resolved the backend and made exactly one
  \<^verbatim>\<open>backend.destroyProvider\<close> call on the provider's handle: the outside state of \<open>w1\<close> is
  the one this single call left, and the provider is marked destroyed. Any sequence of
  \<^verbatim>\<open>destroy()\<close> calls that starts with it ends in \<open>w1\<close> as well, so the later calls release
  nothing. In every world in which the provider is destroyed, under any runtime,
  \<^verbatim>\<open>destroy()\<close> returns normally and changes nothing, and \<^verbatim>\<open>generate()\<close> fails with
  \<^verbatim>\<open>Provider has been destroyed\<close> and changes nothing, so it does not reach the backend.
\<close>

theorem destroy_idempotent:
  assumes "\<not> destroyed (providers w this)" and "Provider_destroy rt this w = (Inr (), w1)"
  shows "(\<exists>backend w0. getBackend rt w = (Inr backend, w0) \<and>
            destroyProvider backend (handle (providers w this)) (outside w0) = (Inr (), outside w1) \<and>
            w1 = w0\<lparr>outside := outside w1,
                    providers := (providers w)(this := (providers w this)\<lparr>destroyed := True\<rparr>)\<rparr>) \<and>
         destroyed (providers w1 this) \<and>
         (\<forall>n. destroy_times (Suc n) rt this w = (Inr (), w1)) \<and>
         (\<forall>w' rt'. destroyed (providers w' this) \<longrightarrow>
            Provider_destroy rt' this w' = (Inr (), w') \<and>
            (\<forall>n. destroy_times n rt' this w' = (Inr (), w')) \<and>
            (\<forall>messages options.
               Provider_generate rt' this messages options w' =
                 (Inl (Error ''Provider has been destroyed''), w')))"
proof -
  have d: "destroyed (providers w1 this)"
    using assms(2) by (rule destroy_Inr_destroyed)
  have seq: "destroy_times (Suc n) rt this w = (Inr (), w1)" for n
    using assms(2) destroy_times_destroyed [OF d] by simp
  show ?thesis
    using destroy_first [OF assms] d seq destroy_destroyed destroy_times_destroyed generate_destroyed
    by blast
qed

theorem destroy_idempotent_witness:
  "destroy_times 3 node_runtime 0 (world_with (createNapiBackend (recorder Null)) False []) =
     (Inr (),
      (world_with (createNapiBackend (recorder Null)) False [])
        \<lparr>outside := [(''destroyProvider'', [Num 7])],
         providers := (\<lambda>_. \<lparr>handle = Num 7, destroyed = False\<rparr>)
                        (0 := \<lparr>handle = Num 7, destroyed = True\<rparr>)\<rparr>) \<and>
   fst (Provider_generate node_runtime 0 [] None
          (snd (destroy_times 3 node_runtime 0 (world_with (createNapiBackend (recorder Null)) False [])))) =
     Inl (Error ''Provider has been destroyed'')"
proof -
  let ?w = "world_with (createNapiBackend (recorder Null)) False []"
  let ?w1 = "?w\<lparr>outside := [(''destroyProvider'', [Num 7])],
                providers := (\<lambda>_. \<lparr>handle = Num 7, destroyed = False\<rparr>)
                               (0 := \<lparr>handle = Num 7, destroyed = True\<rparr>)\<rparr>"
  have a: "\<not> destroyed (providers ?w 0)"
    by (simp add: world_with_def)
  have b: "Provider_destroy node_runtime 0 ?w = (Inr (), ?w1)"
    by (simp add: Provider_destroy_def getBackend_def world_with_def
        createNapiBackend_def then_io_def recorder_def arg_vals_def)
  have seq: "destroy_times (Suc n) node_runtime 0 ?w = (Inr (), ?w1)" for n
    using destroy_idempotent [OF a b] by blast
  have c: "destroy_times 3 node_runtime 0 ?w = (Inr (), ?w1)"
    unfolding numeral_3_eq_3 by (rule seq)
  have d: "Provider_generate node_runtime 0 [] None ?w1 =
             (Inl (Error ''Provider has been destroyed''), ?w1)"
    using destroy_idempotent [OF a b] by blast
  show ?thesis
    using c d by simp
qed

subsection \<open>Mode selection\<close>

lemma hasExecuteFns_iff: "hasExecuteFns ts \<longleftrightarrow> (\<exists>t \<in> set ts. execute t \<noteq> None)"
  by (simp add: hasExecuteFns_def list_ex_iff)

lemma toolSchemas_fields:
  "map name (toolSchemas ts) = map name ts \<and>
   map description (toolSchemas ts) = map description ts \<and>
   map parameters (toolSchemas ts) = map parameters ts"
  by (simp add: toolSchemas_def comp_def)

lemma tool_table_agent_with: "tool_table (agent_with ts) = ts"
  by (simp add: tool_table_def agent_with_def createAgent_def)

lemma getHandle_world_with:
  "Provider_getHandle (agent_provider (agent_with ts)) (world_with b False h) = Inr (Num 7)"
  by (simp add: Provider_getHandle_def world_with_def)

lemma getBackend_world_with: "getBackend rt (world_with b gone h) = (Inr b, world_with b gone h)"
  by (simp add: getBackend_def world_with_def)

text \<open>
  C2. When the backend resolves and the agent's provider is live, \<^verbatim>\<open>Agent.run\<close> is the call
  of \<^verbatim>\<open>backend.agentRunWithToolExecutor\<close> with the bridge's executor if some tool of the
  table carries an \<^verbatim>\<open>execute\<close>, however many others carry none, and the call of
  \<^verbatim>\<open>backend.agentRun\<close> otherwise. In both modes the schemas passed are the same list, read
  off the one tool table: entry by entry the name, description and parameters of the
  tools.
\<close>

theorem run_mode_selection:
  assumes "getBackend rt w = (Inr backend, w1)"
    and "Provider_getHandle (agent_provider this) w1 = Inr h"
  shows "Agent_run rt this messages w =
     (if (\<exists>t \<in> set (tool_table this). execute t \<noteq> None)
      then in_world
             (agentRunWithToolExecutor backend (agent_name this) h (toolSchemas (tool_table this))
                messages (agent_options this) (toolExecutor rt (executorMap (tool_table this)))) w1
      else in_world
             (agentRun backend (agent_name this) h (toolSchemas (tool_table this))
                messages (agent_options this)) w1) \<and>
     map name (toolSchemas (tool_table this)) = map name (tool_table this) \<and>
     map description (toolSchemas (tool_table this)) = map description (tool_table this) \<and>
     map parameters (toolSchemas (tool_table this)) = map parameters (tool_table this)"
  using assms by (simp add: Agent_run_def hasExecuteFns_iff toolSchemas_fields Let_def)

theorem run_mode_selection_witness:
  "map fst (outside (snd (Agent_run (test_runtime [] []) (agent_with [tool_B, tool_A]) []
      (world_with (createNapiBackend (recorder Null)) False [])))) = [''agentRunWithToolExecutor''] \<and>
   map fst (outside (snd (Agent_run (test_runtime [] []) (agent_with [tool_B]) []
      (world_with (createNapiBackend (recorder Null)) False [])))) = [''agentRun'']"
proof -
  let ?w = "world_with (createNapiBackend (recorder Null)) False []"
  have g: "getBackend (test_runtime [] []) ?w = (Inr (createNapiBackend (recorder Null)), ?w)"
    by (rule getBackend_world_with)
  have h: "Provider_getHandle (agent_provider (agent_with ts)) ?w = Inr (Num 7)" for ts
    by (rule getHandle_world_with)
  show ?thesis
    using run_mode_selection [OF g h, of "[tool_B, tool_A]" "[]"]
      run_mode_selection [OF g h, of "[tool_B]" "[]"]
    by (simp add: tool_table_agent_with tool_A_def tool_B_def in_world_def createNapiBackend_def
        then_io_def recorder_def world_with_def)
qed

subsection \<open>The tool-call bridge\<close>

lemma executorMap_fold_None:
  "fold (\<lambda>t m. case execute t of Some f \<Rightarrow> m(name t \<mapsto> f) | None \<Rightarrow> m) ts m0 n = None \<longleftrightarrow>
     m0 n = None \<and> (\<forall>t \<in> set ts. name t = n \<longrightarrow> execute t = None)"
  by (induction ts arbitrary: m0) (auto split: option.splits)

lemma executorMap_None:
  "executorMap ts n = None \<longleftrightarrow> (\<forall>t \<in> set ts. name t = n \<longrightarrow> execute t = None)"
  by (simp add: executorMap_def executorMap_fold_None)

lemma executorMap_fold_keep:
  "\<forall>t \<in> set ts. name t = n \<longrightarrow> execute t = None \<Longrightarrow>
   fold (\<lambda>t m. case execute t of Some f \<Rightarrow> m(name t \<mapsto> f) | None \<Rightarrow> m) ts m0 n = m0 n"
  by (induction ts arbitrary: m0) (auto split: option.splits)

lemma executorMap_fold_Some:
  "distinct (map name ts) \<Longrightarrow> t \<in> set ts \<Longrightarrow> execute t = Some fn \<Longrightarrow>
   fold (\<lambda>t m. case execute t of Some f \<Rightarrow> m(name t \<mapsto> f) | None \<Rightarrow> m) ts m0 (name t) = Some fn"
proof (induction ts arbitrary: m0)
  case Nil
  then show ?case by simp
next
  case (Cons a ts)
  show ?case
  proof (cases "t = a")
    case True
    have "name a \<notin> name ` set ts" using Cons.prems(1) by simp
    then have "\<forall>u \<in> set ts. name u \<noteq> name a" by (metis imageI)
    then have "\<forall>u \<in> set ts. name u = name a \<longrightarrow> execute u = None" by blast
    then show ?thesis
      using True Cons.prems(3) by (simp add: executorMap_fold_keep)
  next
    case False
    then have "t \<in> set ts" using Cons.prems(2) by simp
    moreover have "distinct (map name ts)" using Cons.prems(1) by simp
    ultimately show ?thesis using Cons.IH Cons.prems(3) by simp
  qed
qed

lemma executorMap_Some:
  "distinct (map name ts) \<Longrightarrow> t \<in> set ts \<Longrightarrow> execute t = Some fn \<Longrightarrow>
     executorMap ts (name t) = Some fn"
  by (simp add: executorMap_def executorMap_fold_Some)

lemma get_prop_total:
  "get_prop call k = Inr v \<Longrightarrow> \<exists>v'. get_prop call k' = Inr v'"
  by (cases call) auto

lemma map_get_miss:
  "(\<And>n. tool = Str n \<Longrightarrow> \<forall>t \<in> set ts. name t = n \<longrightarrow> execute t = None) \<Longrightarrow>
     map_get (executorMap ts) tool = None"
  by (cases tool) (simp_all add: map_get_def executorMap_None)

lemma parse_known:
  "JSON_parse (test_runtime installed calls_known) ''call A'' = Inr (call_of ''A'') \<and>
   JSON_parse (test_runtime installed calls_known) ''call B'' = Inr (call_of ''B'')"
  by (simp add: test_runtime_def parse_table_def calls_known_def)

text \<open>
  C3. When the engine's call envelope parses and the tool it names has no host
  implementation in the table (no entry of that name carries an \<^verbatim>\<open>execute\<close>, whether the
  name is absent or present without one; a name that is not a string never has one), the
  bridge's executor returns at once with the error \<^verbatim>\<open>No execute function for tool: \<close>
  followed by the tool's name, and leaves the outside state as it was: it waits for
  nothing, calls no host implementation and tries nothing again. \<^verbatim>\<open>Agent.run\<close> adds no
  recovery either: under the NAPI backend, a failure that the engine's
  \<^verbatim>\<open>agentRunWithToolExecutor\<close> surfaces is the failure of the run.
\<close>

theorem unresolved_tool_fails:
  assumes "JSON_parse rt callJson = Inr call"
    and "get_prop call ''tool'' = Inr tool"
    and "\<forall>n. tool = Str n \<longrightarrow> (\<forall>t \<in> set ts. name t = n \<longrightarrow> execute t = None)"
  shows "toolExecutor rt (executorMap ts) callJson h =
           (Inl (Error (''No execute function for tool: '' @ to_string tool)), h) \<and>
         (backend_var w = Some (createNapiBackend napi) \<and>
          \<not> destroyed (providers w (agent_provider this)) \<and>
          (\<exists>t \<in> set (tool_table this). execute t \<noteq> None) \<and>
          napi ''agentRunWithToolExecutor''
            [Val (Str (agent_name this)), Val (handle (providers w (agent_provider this))),
             Val (napi_tools (toolSchemas (tool_table this))), Val (napi_messages messages),
             Val (napi_agent_options (agent_options this)),
             Callback (toolExecutor rt (executorMap (tool_table this)))] (outside w) = (Inl e, h') \<longrightarrow>
            Agent_run rt this messages w = (Inl e, w\<lparr>outside := h'\<rparr>))"
proof -
  obtain args where "get_prop call ''args'' = Inr args"
    using get_prop_total [OF assms(2)] by blast
  moreover have "map_get (executorMap ts) tool = None"
    using assms(3) by (intro map_get_miss) blast
  ultimately have "toolExecutor rt (executorMap ts) callJson h =
           (Inl (Error (''No execute function for tool: '' @ to_string tool)), h)"
    using assms(1,2) by (simp add: toolExecutor_def)
  moreover have "Agent_run rt this messages w = (Inl e, w\<lparr>outside := h'\<rparr>)"
    if "backend_var w = Some (createNapiBackend napi)"
      and "\<not> destroyed (providers w (agent_provider this))"
      and "\<exists>t \<in> set (tool_table this). execute t \<noteq> None"
      and "napi ''agentRunWithToolExecutor''
            [Val (Str (agent_name this)), Val (handle (providers w (agent_provider this))),
             Val (napi_tools (toolSchemas (tool_table this))), Val (napi_messages messages),
             Val (napi_agent_options (agent_options this)),
             Callback (toolExecutor rt (executorMap (tool_table this)))] (outside w) = (Inl e, h')"
    using that
    by (simp add: Agent_run_def getBackend_def Provider_getHandle_def hasExecuteFns_iff Let_def
        in_world_def createNapiBackend_def then_io_def)
  ultimately show ?thesis by blast
qed

theorem unresolved_tool_fails_witness:
  "toolExecutor (test_runtime [] calls_known) (executorMap [tool_A, tool_B]) ''call B'' [] =
     (Inl (Error ''No execute function for tool: B''), []) \<and>
   Agent_run (test_runtime [] calls_known) (agent_with [tool_A, tool_B]) []
       (world_with (createNapiBackend (engine [ [''call B''], [''call A''] ] ''done'' (Num 0) (Num 0)))
          False []) =
     (Inl (Error ''No execute function for tool: B''),
      world_with (createNapiBackend (engine [ [''call B''], [''call A''] ] ''done'' (Num 0) (Num 0)))
          False [])"
proof -
  let ?rt = "test_runtime [] calls_known"
  let ?napi = "engine [ [''call B''], [''call A''] ] ''done'' (Num 0) (Num 0) :: call_log native_module"
  let ?w = "world_with (createNapiBackend ?napi) False []"
  have p: "JSON_parse ?rt ''call B'' = Inr (call_of ''B'')"
    by (simp add: parse_known)
  have t: "get_prop (call_of ''B'') ''tool'' = Inr (Str ''B'')"
    by (simp add: call_of_def)
  have n: "\<forall>n. Str ''B'' = Str n \<longrightarrow> (\<forall>t \<in> set [tool_A, tool_B]. name t = n \<longrightarrow> execute t = None)"
    by (simp add: tool_A_def tool_B_def)
  note u = unresolved_tool_fails [OF p t n, where napi = ?napi and w = ?w
      and this = "agent_with [tool_A, tool_B]" and messages = "[]" and h' = "[]"
      and e = "Error ''No execute function for tool: B''"]
  have ex: "toolExecutor ?rt (executorMap [tool_A, tool_B]) ''call B'' h =
              (Inl (Error ''No execute function for tool: B''), h)" for h
    using u [of h] by simp
  have call: "?napi ''agentRunWithToolExecutor''
            [Val (Str (agent_name (agent_with [tool_A, tool_B]))),
             Val (handle (providers ?w (agent_provider (agent_with [tool_A, tool_B])))),
             Val (napi_tools (toolSchemas (tool_table (agent_with [tool_A, tool_B])))),
             Val (napi_messages []),
             Val (napi_agent_options (agent_options (agent_with [tool_A, tool_B]))),
             Callback (toolExecutor ?rt (executorMap (tool_table (agent_with [tool_A, tool_B]))))]
            (outside ?w) = (Inl (Error ''No execute function for tool: B''), [])"
    by (simp add: engine_def then_io_def tool_table_agent_with ex world_with_def)
  have imp: "backend_var ?w = Some (createNapiBackend ?napi) \<and>
          \<not> destroyed (providers ?w (agent_provider (agent_with [tool_A, tool_B]))) \<and>
          (\<exists>t \<in> set (tool_table (agent_with [tool_A, tool_B])). execute t \<noteq> None) \<and>
          ?napi ''agentRunWithToolExecutor''
            [Val (Str (agent_name (agent_with [tool_A, tool_B]))),
             Val (handle (providers ?w (agent_provider (agent_with [tool_A, tool_B])))),
             Val (napi_tools (toolSchemas (tool_table (agent_with [tool_A, tool_B])))),
             Val (napi_messages []),
             Val (napi_agent_options (agent_options (agent_with [tool_A, tool_B]))),
             Callback (toolExecutor ?rt (executorMap (tool_table (agent_with [tool_A, tool_B]))))]
            (outside ?w) = (Inl (Error ''No execute function for tool: B''), []) \<longrightarrow>
          Agent_run ?rt (agent_with [tool_A, tool_B]) [] ?w =
            (Inl (Error ''No execute function for tool: B''), ?w\<lparr>outside := []\<rparr>)"
    using u [of "[]"] by (rule conjunct2)
  have b: "backend_var ?w = Some (createNapiBackend ?napi)"
    by (simp add: world_with_def)
  have live: "\<not> destroyed (providers ?w (agent_provider (agent_with [tool_A, tool_B])))"
    by (simp add: world_with_def)
  have mode: "\<exists>t \<in> set (tool_table (agent_with [tool_A, tool_B])). execute t \<noteq> None"
    by (simp add: tool_table_agent_with tool_A_def)
  have run: "Agent_run ?rt (agent_with [tool_A, tool_B]) [] ?w =
          (Inl (Error ''No execute function for tool: B''), ?w\<lparr>outside := []\<rparr>)"
    by (rule mp [OF imp]) (intro conjI b live mode call)
  have same: "?w\<lparr>outside := []\<rparr> = ?w"
    by (simp add: world_with_def)
  show ?thesis
    using ex [of "[]"] run same by simp
qed

lemma toolExecutor_hit:
  assumes "JSON_parse rt callJson = Inr call"
    and "get_prop call ''tool'' = Inr (Str (name t))"
    and "get_prop call ''args'' = Inr args"
    and "distinct (map name ts)" and "t \<in> set ts" and "execute t = Some fn"
  shows "toolExecutor rt (executorMap ts) callJson h =
           (case fn args h of
              (Inl e, h') \<Rightarrow> (Inl e, h')
            | (Inr result, h') \<Rightarrow>
                (Inr (if result = Undefined then Undefined else Str (json_text result)), h'))"
proof -
  have "map_get (executorMap ts) (Str (name t)) = Some fn"
    using assms(4-6) by (simp add: map_get_def executorMap_Some)
  then show ?thesis
    using assms(1-3) by (simp add: toolExecutor_def then_io_def JSON_stringify_def)
qed

text \<open>
  C9. Let the call envelope parse to a call that names a tool of the table carrying a host
  implementation \<open>fn\<close>, the names of the table being unique. Then the executor is one
  application of \<open>fn\<close> to the parsed arguments: the outside state it leaves is the one
  that this single application leaves, and an error of \<open>fn\<close> is the executor's error. A
  result other than \<^verbatim>\<open>undefined\<close> is returned as the string holding its JSON text. For the
  result \<^verbatim>\<open>undefined\<close> the executor returns \<^verbatim>\<open>undefined\<close>, which is no JSON text and no
  string, although the source declares the executor \<^verbatim>\<open>Promise<string>\<close>: here the code
  misses what the claim says. In the scenario of the spec, with the engine's step loop as
  modelled above (one step that requests this tool, then the final answer), \<^verbatim>\<open>Agent.run\<close>
  under the NAPI backend returns a result whose \<^verbatim>\<open>steps\<close> is 2 and whose \<^verbatim>\<open>text\<close> is the
  final answer, and the outside state is again that of the one application of \<open>fn\<close>.
\<close>

theorem bridge_invokes_host_tool:
  assumes "JSON_parse rt callJson = Inr call"
    and "get_prop call ''tool'' = Inr (Str (name t))"
    and "get_prop call ''args'' = Inr args"
    and "distinct (map name (tool_table this))"
    and "t \<in> set (tool_table this)"
    and "execute t = Some fn"
  shows "toolExecutor rt (executorMap (tool_table this)) callJson h =
           (case fn args h of
              (Inl e, h') \<Rightarrow> (Inl e, h')
            | (Inr result, h') \<Rightarrow>
                (Inr (if result = Undefined then Undefined else Str (json_text result)), h')) \<and>
         (backend_var w = Some (createNapiBackend (engine [ [callJson] ] final tokens_in tokens_out)) \<and>
          \<not> destroyed (providers w (agent_provider this)) \<and>
          fn args (outside w) = (Inr result, h1) \<longrightarrow>
            Agent_run rt this messages w =
              (Inr (Obj [(''text'', Str final),
                         (''steps'', Num 2),
                         (''usage'', Obj [(''inputTokens'', tokens_in), (''outputTokens'', tokens_out)]),
                         (''structuredOutput'', Undefined)]),
               w\<lparr>outside := h1\<rparr>))"
proof -
  have hit: "toolExecutor rt (executorMap (tool_table this)) callJson h =
           (case fn args h of
              (Inl e, h') \<Rightarrow> (Inl e, h')
            | (Inr result, h') \<Rightarrow>
                (Inr (if result = Undefined then Undefined else Str (json_text result)), h'))" for h
    using assms by (rule toolExecutor_hit)
  have mode: "hasExecuteFns (tool_table this)"
    using assms(5,6) by (auto simp: hasExecuteFns_iff)
  have run: "Agent_run rt this messages w =
              (Inr (Obj [(''text'', Str final),
                         (''steps'', Num 2),
                         (''usage'', Obj [(''inputTokens'', tokens_in), (''outputTokens'', tokens_out)]),
                         (''structuredOutput'', Undefined)]),
               w\<lparr>outside := h1\<rparr>)"
    if b: "backend_var w = Some (createNapiBackend (engine [ [callJson] ] final tokens_in tokens_out))"
      and live: "\<not> destroyed (providers w (agent_provider this))"
      and ran: "fn args (outside w) = (Inr result, h1)"
  proof -
    have "engine_calls (toolExecutor rt (executorMap (tool_table this))) [callJson] (outside w) =
            (Inr (), h1)"
      using hit [of "outside w"] ran by simp
    then show ?thesis
      using b live mode
      by (simp add: Agent_run_def getBackend_def Provider_getHandle_def Let_def in_world_def
          createNapiBackend_def engine_def then_io_def napi_agent_result_def coalesce_def nullish_def)
  qed
  show ?thesis using hit run by blast
qed

text \<open>The theorem at three tools. One resolves to the string \<^verbatim>\<open>42\<close>: the executor returns
  the four characters of its JSON text, quotes included, and the run of the scenario has
  two steps. One resolves to an object with an \<^verbatim>\<open>undefined\<close> property: the text leaves the
  property out. One resolves to \<^verbatim>\<open>undefined\<close>: the executor returns \<^verbatim>\<open>undefined\<close>. Each
  implementation ran once, on the parsed arguments.\<close>

theorem bridge_invokes_host_tool_witness:
  "toolExecutor (test_runtime [] calls_known) (executorMap [tool_A]) ''call A'' [] =
     (Inr (Str [CHR 0x22, CHR ''4'', CHR ''2'', CHR 0x22]), [(''execute'', [Obj [(''q'', Num 1)]])]) \<and>
   Agent_run (test_runtime [] calls_known) (agent_with [tool_A]) []
       (world_with (createNapiBackend (engine [ [''call A''] ] ''It is 42'' (Num 10) (Num 5))) False []) =
     (Inr (Obj [(''text'', Str ''It is 42''),
                (''steps'', Num 2),
                (''usage'', Obj [(''inputTokens'', Num 10), (''outputTokens'', Num 5)]),
                (''structuredOutput'', Undefined)]),
      (world_with (createNapiBackend (engine [ [''call A''] ] ''It is 42'' (Num 10) (Num 5))) False [])
        \<lparr>outside := [(''execute'', [Obj [(''q'', Num 1)]])]\<rparr>) \<and>
   toolExecutor (test_runtime [] [(''call O'', call_of ''O'')])
       (executorMap
          [\<lparr>name = ''O'', description = ''object'', parameters = None,
            execute = Some (logging_tool
              (Obj [(''answer'', Num 42), (''note'', Undefined), (''ok'', Arr [Bool True, Null])]))\<rparr>])
       ''call O'' [] =
     (Inr (Str (''{'' @ [CHR 0x22] @ ''answer'' @ [CHR 0x22] @ '':42,''
                 @ [CHR 0x22] @ ''ok'' @ [CHR 0x22] @ '':[true,null]}'')),
      [(''execute'', [Obj [(''q'', Num 1)]])]) \<and>
   toolExecutor (test_runtime [] [(''call U'', call_of ''U'')]) (executorMap [tool_U]) ''call U'' [] =
     (Inr Undefined, [(''execute'', [Obj [(''q'', Num 1)]])])"
proof -
  let ?rt = "test_runtime [] calls_known"
  let ?w = "world_with (createNapiBackend (engine [ [''call A''] ] ''It is 42'' (Num 10) (Num 5))) False
              ([] :: call_log)"
  have p: "JSON_parse ?rt ''call A'' = Inr (call_of ''A'')"
    by (simp add: parse_known)
  have t: "get_prop (call_of ''A'') ''tool'' = Inr (Str (name tool_A))"
    by (simp add: call_of_def tool_A_def)
  have a: "get_prop (call_of n) ''args'' = Inr (Obj [(''q'', Num 1)])" for n
    by (simp add: call_of_def)
  have d: "distinct (map name (tool_table (agent_with [x])))" for x
    by (simp add: tool_table_agent_with)
  have m: "x \<in> set (tool_table (agent_with [x]))" for x
    by (simp add: tool_table_agent_with)
  have e: "execute tool_A = Some (logging_tool (Str ''42''))"
    by (simp add: tool_A_def)
  note u = bridge_invokes_host_tool [OF p t a d m e, where w = ?w and final = "''It is 42''"
      and tokens_in = "Num 10" and tokens_out = "Num 5" and result = "Str ''42''"
      and ?h1.0 = "[(''execute'', [Obj [(''q'', Num 1)]])]" and messages = "[]"]
  have ex: "toolExecutor ?rt (executorMap [tool_A]) ''call A'' [] =
     (Inr (Str [CHR 0x22, CHR ''4'', CHR ''2'', CHR 0x22]), [(''execute'', [Obj [(''q'', Num 1)]])])"
    using u [of "[]"]
    by (simp add: tool_table_agent_with logging_tool_def quote_def escape_char_def)
  have b: "backend_var ?w =
             Some (createNapiBackend (engine [ [''call A''] ] ''It is 42'' (Num 10) (Num 5)))"
    by (simp add: world_with_def)
  have live: "\<not> destroyed (providers ?w (agent_provider (agent_with [tool_A])))"
    by (simp add: world_with_def)
  have ran: "logging_tool (Str ''42'') (Obj [(''q'', Num 1)]) (outside ?w) =
               (Inr (Str ''42''), [(''execute'', [Obj [(''q'', Num 1)]])])"
    by (simp add: logging_tool_def world_with_def)
  have run: "Agent_run ?rt (agent_with [tool_A]) [] ?w =
     (Inr (Obj [(''text'', Str ''It is 42''),
                (''steps'', Num 2),
                (''usage'', Obj [(''inputTokens'', Num 10), (''outputTokens'', Num 5)]),
                (''structuredOutput'', Undefined)]),
      ?w\<lparr>outside := [(''execute'', [Obj [(''q'', Num 1)]])]\<rparr>)"
    by (rule mp [OF conjunct2 [OF u [of "[]"]]]) (intro conjI b live ran)
  let ?tool_O = "\<lparr>name = ''O'', description = ''object'', parameters = None,
            execute = Some (logging_tool
              (Obj [(''answer'', Num 42), (''note'', Undefined), (''ok'', Arr [Bool True, Null])]))\<rparr>
            :: call_log ToolDef"
  have pO: "JSON_parse (test_runtime [] [(''call O'', call_of ''O'')]) ''call O'' = Inr (call_of ''O'')"
    by (simp add: test_runtime_def parse_table_def)
  have tO: "get_prop (call_of ''O'') ''tool'' = Inr (Str (name ?tool_O))"
    by (simp add: call_of_def)
  have eO: "execute ?tool_O = Some (logging_tool
              (Obj [(''answer'', Num 42), (''note'', Undefined), (''ok'', Arr [Bool True, Null])]))"
    by simp
  have jt: "json_text (Obj [(''answer'', Num 42), (''note'', Undefined), (''ok'', Arr [Bool True, Null])]) =
      ''{'' @ [CHR 0x22] @ ''answer'' @ [CHR 0x22] @ '':42,''
          @ [CHR 0x22] @ ''ok'' @ [CHR 0x22] @ '':[true,null]}''"
    by code_simp
  have exO: "toolExecutor (test_runtime [] [(''call O'', call_of ''O'')]) (executorMap [?tool_O])
       ''call O'' [] =
     (Inr (Str (''{'' @ [CHR 0x22] @ ''answer'' @ [CHR 0x22] @ '':42,''
                 @ [CHR 0x22] @ ''ok'' @ [CHR 0x22] @ '':[true,null]}'')),
      [(''execute'', [Obj [(''q'', Num 1)]])])"
    using bridge_invokes_host_tool [OF pO tO a d m eO, of "[]"]
    by (simp add: tool_table_agent_with logging_tool_def jt del: json_text.simps)
  have pU: "JSON_parse (test_runtime [] [(''call U'', call_of ''U'')]) ''call U'' = Inr (call_of ''U'')"
    by (simp add: test_runtime_def parse_table_def)
  have tU: "get_prop (call_of ''U'') ''tool'' = Inr (Str (name tool_U))"
    by (simp add: call_of_def tool_U_def)
  have eU: "execute tool_U = Some (logging_tool Undefined)"
    by (simp add: tool_U_def)
  have exU: "toolExecutor (test_runtime [] [(''call U'', call_of ''U'')]) (executorMap [tool_U])
       ''call U'' [] = (Inr Undefined, [(''execute'', [Obj [(''q'', Num 1)]])])"
    using bridge_invokes_host_tool [OF pU tU a d m eU, of "[]"]
    by (simp add: tool_table_agent_with logging_tool_def)
  show ?thesis
    using ex run exO exU by simp
qed

subsection \<open>The WASM backend\<close>

text \<open>
  C4. In the WASM backend \<^verbatim>\<open>agentRunWithToolExecutor\<close> is \<^verbatim>\<open>agentRun\<close> on the same arguments,
  whatever executor it is given. So with the WASM backend in place and a live provider,
  \<^verbatim>\<open>Agent.run\<close> is, for every tool table, the one call of the module's \<^verbatim>\<open>agentRun\<close> on
  value arguments (no callback is passed, so no host implementation can run) followed by
  \<^verbatim>\<open>JSON.parse\<close> of the reply; when the module replies and the reply parses, the run
  returns the parsed result, also for tools that carry \<^verbatim>\<open>execute\<close>.
\<close>

theorem wasm_mode_b_degrades:
  "agentRunWithToolExecutor (createWasmBackend rt wasm) n h schemas messages options ex =
     agentRun (createWasmBackend rt wasm) n h schemas messages options \<and>
   (backend_var w = Some (createWasmBackend rt wasm) \<and>
    \<not> destroyed (providers w (agent_provider this)) \<longrightarrow>
      Agent_run rt this messages w =
        in_world
          (then_io
             (wasm ''agentRun''
                [Val (Str (agent_name this)), Val (handle (providers w (agent_provider this))),
                 Val (wasm_messages messages),
                 Val (JSON_stringify (wasm_agent_options (agent_options this)))])
             (\<lambda>json. JSON_parse rt (to_string json))) w) \<and>
   (backend_var w = Some (createWasmBackend rt wasm) \<and>
    \<not> destroyed (providers w (agent_provider this)) \<and>
    wasm ''agentRun''
      [Val (Str (agent_name this)), Val (handle (providers w (agent_provider this))),
       Val (wasm_messages messages),
       Val (JSON_stringify (wasm_agent_options (agent_options this)))] (outside w) = (Inr json, h') \<and>
    JSON_parse rt (to_string json) = Inr result \<longrightarrow>
      Agent_run rt this messages w = (Inr result, w\<lparr>outside := h'\<rparr>))"
  by (simp add: createWasmBackend_def wasm_agentRun_def Agent_run_def getBackend_def
      Provider_getHandle_def in_world_def then_io_def Let_def)

theorem wasm_mode_b_degrades_witness:
  "Agent_run (test_runtime [] [(''R'', Obj [(''text'', Str ''done'')])]) (agent_with [tool_A]) []
     (world_with
        (createWasmBackend (test_runtime [] [(''R'', Obj [(''text'', Str ''done'')])]) (recorder (Str ''R'')))
        False []) =
   (Inr (Obj [(''text'', Str ''done'')]),
    (world_with
        (createWasmBackend (test_runtime [] [(''R'', Obj [(''text'', Str ''done'')])]) (recorder (Str ''R'')))
        False [])
      \<lparr>outside := [(''agentRun'', [Str ''helper'', Num 7, Str ''[]'', Str ''{}''])]\<rparr>)"
proof -
  let ?rt = "test_runtime [] [(''R'', Obj [(''text'', Str ''done'')])]"
  let ?w = "world_with (createWasmBackend ?rt (recorder (Str ''R''))) False ([] :: call_log)"
  have b: "backend_var ?w = Some (createWasmBackend ?rt (recorder (Str ''R'')))"
    by (simp add: world_with_def)
  have live: "\<not> destroyed (providers ?w (agent_provider (agent_with [tool_A])))"
    by (simp add: world_with_def)
  have call: "recorder (Str ''R'') ''agentRun''
      [Val (Str (agent_name (agent_with [tool_A]))),
       Val (handle (providers ?w (agent_provider (agent_with [tool_A])))),
       Val (wasm_messages []),
       Val (JSON_stringify (wasm_agent_options (agent_options (agent_with [tool_A]))))] (outside ?w) =
     (Inr (Str ''R''), [(''agentRun'', [Str ''helper'', Num 7, Str ''[]'', Str ''{}''])])"
    by (simp add: recorder_def arg_vals_def agent_with_def createAgent_def world_with_def
        wasm_messages_def wasm_agent_options_def JSON_stringify_def no_options_def field_def join_def)
  have parse: "JSON_parse ?rt (to_string (Str ''R'')) = Inr (Obj [(''text'', Str ''done'')])"
    by (simp add: test_runtime_def parse_table_def)
  show ?thesis
    by (rule mp [OF conjunct2 [OF conjunct2 [OF wasm_mode_b_degrades
              [where rt = ?rt and wasm = "recorder (Str ''R'')" and w = ?w
                 and this = "agent_with [tool_A]" and messages = "[]" and json = "Str ''R''"
                 and h' = "[(''agentRun'', [Str ''helper'', Num 7, Str ''[]'', Str ''{}''])]"
                 and result = "Obj [(''text'', Str ''done'')]"]]]])
      (intro conjI b live call parse)
qed

subsection \<open>Backend detection\<close>

lemma message_names_napi:
  "sublist ''@giulio-leone/gauss-core-napi''
     (''No Gauss backend found. Install @giulio-leone/gauss-core-napi (Node.js) ''
        @ ''or @giulio-leone/gauss-core-wasm (Browser/Edge).'')"
  unfolding sublist_def
  by (rule exI [of _ "''No Gauss backend found. Install ''"],
      rule exI [of _ "'' (Node.js) or @giulio-leone/gauss-core-wasm (Browser/Edge).''"]) simp

lemma message_names_wasm:
  "sublist ''@giulio-leone/gauss-core-wasm''
     (''No Gauss backend found. Install @giulio-leone/gauss-core-napi (Node.js) ''
        @ ''or @giulio-leone/gauss-core-wasm (Browser/Edge).'')"
  unfolding sublist_def
  by (rule exI [of _ "''No Gauss backend found. Install @giulio-leone/gauss-core-napi (Node.js) or ''"],
      rule exI [of _ "'' (Browser/Edge).''"]) simp

text \<open>
  C5. Detection loads the NAPI package first. If it loads, the backend is the NAPI backend
  over it and the WASM package is not attempted (the outside state is the one the first
  load left). Only if it fails is the WASM package loaded, and if that loads the backend
  is the WASM backend over it. If both fail, detection throws an error whose message
  contains the names of both packages.
\<close>

theorem detect_priority_order:
  "(require rt ''@giulio-leone/gauss-core-napi'' h = (Inr napi, h1) \<longrightarrow>
      detectBackend rt h = (Inr (createNapiBackend napi), h1)) \<and>
   (require rt ''@giulio-leone/gauss-core-napi'' h = (Inl e1, h1) \<and>
    require rt ''@giulio-leone/gauss-core-wasm'' h1 = (Inr wasm, h2) \<longrightarrow>
      detectBackend rt h = (Inr (createWasmBackend rt wasm), h2)) \<and>
   (require rt ''@giulio-leone/gauss-core-napi'' h = (Inl e1, h1) \<and>
    require rt ''@giulio-leone/gauss-core-wasm'' h1 = (Inl e2, h2) \<longrightarrow>
      (\<exists>msg. detectBackend rt h = (Inl (Error msg), h2) \<and>
             sublist ''@giulio-leone/gauss-core-napi'' msg \<and>
             sublist ''@giulio-leone/gauss-core-wasm'' msg))"
  using message_names_napi message_names_wasm by (simp add: detectBackend_def)

theorem detect_priority_order_witness:
  "detectBackend
     (test_runtime [(''@giulio-leone/gauss-core-wasm'', recorder (Num 2)),
                    (''@giulio-leone/gauss-core-napi'', recorder (Num 1))] []) [] =
     (Inr (createNapiBackend (recorder (Num 1))),
      [(''require'', [Str ''@giulio-leone/gauss-core-napi''])]) \<and>
   detectBackend (test_runtime [(''@giulio-leone/gauss-core-wasm'', recorder (Num 2))] []) [] =
     (Inr (createWasmBackend (test_runtime [(''@giulio-leone/gauss-core-wasm'', recorder (Num 2))] [])
             (recorder (Num 2))),
      [(''require'', [Str ''@giulio-leone/gauss-core-napi'']),
       (''require'', [Str ''@giulio-leone/gauss-core-wasm''])]) \<and>
   (\<exists>msg. detectBackend (test_runtime [] []) [] =
            (Inl (Error msg),
             [(''require'', [Str ''@giulio-leone/gauss-core-napi'']),
              (''require'', [Str ''@giulio-leone/gauss-core-wasm''])]) \<and>
          sublist ''@giulio-leone/gauss-core-napi'' msg \<and>
          sublist ''@giulio-leone/gauss-core-wasm'' msg)"
proof -
  let ?both = "test_runtime [(''@giulio-leone/gauss-core-wasm'', recorder (Num 2)),
                             (''@giulio-leone/gauss-core-napi'', recorder (Num 1))] []"
  let ?wasm = "test_runtime [(''@giulio-leone/gauss-core-wasm'', recorder (Num 2))] []"
  let ?none = "test_runtime [] []"
  let ?l1 = "[(''require'', [Str ''@giulio-leone/gauss-core-napi''])]"
  let ?l2 = "[(''require'', [Str ''@giulio-leone/gauss-core-napi'']),
              (''require'', [Str ''@giulio-leone/gauss-core-wasm''])]"
  have b1: "require ?both ''@giulio-leone/gauss-core-napi'' [] = (Inr (recorder (Num 1)), ?l1)"
    by (simp add: test_runtime_def loader_def)
  have w1: "require ?wasm ''@giulio-leone/gauss-core-napi'' [] =
              (Inl (Error ''Cannot find module @giulio-leone/gauss-core-napi''), ?l1)"
    by (simp add: test_runtime_def loader_def)
  have w2: "require ?wasm ''@giulio-leone/gauss-core-wasm'' ?l1 = (Inr (recorder (Num 2)), ?l2)"
    by (simp add: test_runtime_def loader_def)
  have n1: "require ?none ''@giulio-leone/gauss-core-napi'' [] =
              (Inl (Error ''Cannot find module @giulio-leone/gauss-core-napi''), ?l1)"
    by (simp add: test_runtime_def loader_def)
  have n2: "require ?none ''@giulio-leone/gauss-core-wasm'' ?l1 =
              (Inl (Error ''Cannot find module @giulio-leone/gauss-core-wasm''), ?l2)"
    by (simp add: test_runtime_def loader_def)
  have first: "detectBackend ?both [] = (Inr (createNapiBackend (recorder (Num 1))), ?l1)"
    using detect_priority_order [of ?both "[]" "recorder (Num 1)" ?l1] b1 by blast
  have second: "detectBackend ?wasm [] = (Inr (createWasmBackend ?wasm (recorder (Num 2))), ?l2)"
    using detect_priority_order [of ?wasm "[]" _ ?l1 _ "recorder (Num 2)" ?l2] w1 w2 by blast
  have third: "\<exists>msg. detectBackend ?none [] = (Inl (Error msg), ?l2) \<and>
          sublist ''@giulio-leone/gauss-core-napi'' msg \<and>
          sublist ''@giulio-leone/gauss-core-wasm'' msg"
    using detect_priority_order [of ?none "[]" _ ?l1 _ _ ?l2] n1 n2 by blast
  show ?thesis
    using first second third by blast
qed

subsection \<open>Memoization and override\<close>

lemma stub_differs: "(stub_backend :: call_log Backend) \<noteq> createNapiBackend (recorder Null)"
proof
  assume "(stub_backend :: call_log Backend) = createNapiBackend (recorder Null)"
  then have "destroyProvider (stub_backend :: call_log Backend) Null [] =
             destroyProvider (createNapiBackend (recorder Null)) Null []"
    by simp
  then show False
    by (simp add: stub_backend_def createNapiBackend_def then_io_def recorder_def)
qed

text \<open>
  C6, as the claim states it, fails: \<^verbatim>\<open>setBackend\<close> has no guard, so it also takes effect
  after detection has run. In a fresh process where the NAPI package is installed the first
  \<^verbatim>\<open>getBackend()\<close> returns the detected NAPI backend; after a \<^verbatim>\<open>setBackend\<close> of another
  backend object the next \<^verbatim>\<open>getBackend()\<close> returns that other object. The later call did
  not return the same backend, and the memo was written twice.
\<close>

theorem memo_set_once_counterexample:
  "fst (getBackend node_runtime (fresh_world [])) = Inr (createNapiBackend (recorder Null)) \<and>
   fst (getBackend node_runtime
          (setBackend stub_backend (snd (getBackend node_runtime (fresh_world []))))) =
     Inr stub_backend \<and>
   (stub_backend :: call_log Backend) \<noteq> createNapiBackend (recorder Null)"
  using stub_differs
  by (simp add: getBackend_def setBackend_def fresh_world_def detect_node)

text \<open>
  C6, amended. A successful \<^verbatim>\<open>getBackend()\<close> leaves its result in the memo, and from then
  on every \<^verbatim>\<open>getBackend()\<close> returns that same backend and changes nothing (no detection:
  the outside state is untouched and the runtime is not consulted), as long as
  \<^verbatim>\<open>setBackend\<close> is not called. Detection runs only when the memo is empty.
  \<^verbatim>\<open>setBackend(b)\<close> overwrites the memo in every world, before, instead of or after
  detection, and every \<^verbatim>\<open>getBackend()\<close> after it returns \<open>b\<close> without detection.
\<close>

theorem backend_memoized:
  "(getBackend rt w = (Inr b, w1) \<longrightarrow>
      backend_var w1 = Some b \<and> (\<forall>rt'. getBackend rt' w1 = (Inr b, w1))) \<and>
   (backend_var w = Some b \<longrightarrow> (\<forall>rt'. getBackend rt' w = (Inr b, w))) \<and>
   (backend_var w = None \<longrightarrow>
      getBackend rt w =
        (case detectBackend rt (outside w) of
           (Inl e, h') \<Rightarrow> (Inl e, w\<lparr>outside := h'\<rparr>)
         | (Inr b', h') \<Rightarrow> (Inr b', w\<lparr>backend_var := Some b', outside := h'\<rparr>))) \<and>
   backend_var (setBackend b' w) = Some b' \<and>
   (\<forall>rt'. getBackend rt' (setBackend b' w) = (Inr b', setBackend b' w))"
  by (auto simp: getBackend_def setBackend_def split: option.splits prod.splits sum.splits)

theorem backend_memoized_witness:
  "getBackend node_runtime (fresh_world []) =
     (Inr (createNapiBackend (recorder Null)),
      (fresh_world [])\<lparr>backend_var := Some (createNapiBackend (recorder Null)),
                       outside := [(''require'', [Str ''@giulio-leone/gauss-core-napi''])]\<rparr>) \<and>
   getBackend (test_runtime [] [])
     ((fresh_world [])\<lparr>backend_var := Some (createNapiBackend (recorder Null)),
                       outside := [(''require'', [Str ''@giulio-leone/gauss-core-napi''])]\<rparr>) =
     (Inr (createNapiBackend (recorder Null)),
      (fresh_world [])\<lparr>backend_var := Some (createNapiBackend (recorder Null)),
                       outside := [(''require'', [Str ''@giulio-leone/gauss-core-napi''])]\<rparr>)"
proof -
  let ?w1 = "(fresh_world [])\<lparr>backend_var := Some (createNapiBackend (recorder Null)),
                       outside := [(''require'', [Str ''@giulio-leone/gauss-core-napi''])]\<rparr>"
  have empty: "backend_var (fresh_world ([] :: call_log)) = None"
    by (simp add: fresh_world_def)
  have first: "getBackend node_runtime (fresh_world []) = (Inr (createNapiBackend (recorder Null)), ?w1)"
    using backend_memoized [of node_runtime "fresh_world []"] empty
    by (simp add: detect_node fresh_world_def)
  have "getBackend (test_runtime [] []) ?w1 = (Inr (createNapiBackend (recorder Null)), ?w1)"
    using backend_memoized [of node_runtime "fresh_world []" "createNapiBackend (recorder Null)" ?w1]
      first by blast
  then show ?thesis
    using first by simp
qed

subsection \<open>Marshalling under the NAPI backend\<close>

lemma coalesce_Str: "coalesce (field Str x) d = (case x of None \<Rightarrow> d | Some s \<Rightarrow> Str s)"
  by (simp add: coalesce_def field_def nullish_def split: option.splits)

lemma coalesce_Num: "coalesce (field Num x) d = (case x of None \<Rightarrow> d | Some n \<Rightarrow> Num n)"
  by (simp add: coalesce_def field_def nullish_def split: option.splits)

lemma coalesce_id:
  "coalesce (field id x) Null = (case x of None \<Rightarrow> Null | Some v \<Rightarrow> if nullish v then Null else v)"
  by (simp add: coalesce_def field_def nullish_def split: option.splits)

text \<open>
  C7, as the claim states it, fails: the NAPI backend does not leave an absent optional
  field out, it passes \<^verbatim>\<open>null\<close> for it. Creating a provider from options that hold only
  the API key passes the native module an options object with all five keys, the four
  absent ones bound to \<^verbatim>\<open>null\<close>.
\<close>

theorem napi_null_sentinel_counterexample:
  "snd (createProvider (createNapiBackend (recorder Null)) ''openai'' ''gpt-4o'' key_only []) =
     [(''createProvider'',
       [Str ''openai'', Str ''gpt-4o'',
        Obj [(''apiKey'', Str ''k''), (''baseUrl'', Null), (''timeoutMs'', Null),
             (''maxRetries'', Null), (''organization'', Null)]])]"
  by (simp add: createNapiBackend_def recorder_def arg_vals_def napi_provider_options_def
      key_only_def coalesce_def nullish_def field_def)

text \<open>
  C7, amended. Under the NAPI backend the arguments reach the native module as structured
  values, never as serialized text, and every optional field is always passed: the
  provider options object has all five keys, a tool schema always has \<^verbatim>\<open>parameters\<close>, the
  agent options object has all eight keys, and \<^verbatim>\<open>generate\<close> always passes four arguments.
  A field that is absent on the host side is passed as \<^verbatim>\<open>null\<close>, a present one as its
  value.
\<close>

theorem napi_marshalling:
  "createProvider (createNapiBackend napi) ptype model options =
     napi ''createProvider''
       [Val (Str ptype), Val (Str model),
        Val (Obj [(''apiKey'', Str (apiKey options)),
                  (''baseUrl'', case baseUrl options of None \<Rightarrow> Null | Some s \<Rightarrow> Str s),
                  (''timeoutMs'', case timeoutMs options of None \<Rightarrow> Null | Some n \<Rightarrow> Num n),
                  (''maxRetries'', case maxRetries options of None \<Rightarrow> Null | Some n \<Rightarrow> Num n),
                  (''organization'', case organization options of None \<Rightarrow> Null | Some s \<Rightarrow> Str s)])] \<and>
   generate (createNapiBackend napi) h messages temp maxTok =
     napi ''generate''
       [Val h,
        Val (Arr (map (\<lambda>m. Obj [(''role'', Str (role_text (role m))), (''content'', Str (content m))]) messages)),
        Val (case temp of None \<Rightarrow> Null | Some n \<Rightarrow> Num n),
        Val (case maxTok of None \<Rightarrow> Null | Some n \<Rightarrow> Num n)] \<and>
   agentRunWithToolExecutor (createNapiBackend napi) n h schemas messages aopts ex =
     then_io
       (napi ''agentRunWithToolExecutor''
          [Val (Str n), Val h,
           Val (Arr (map (\<lambda>t. Obj [(''name'', Str (name t)), (''description'', Str (description t)),
                                    (''parameters'', case parameters t of None \<Rightarrow> Null
                                       | Some v \<Rightarrow> if nullish v then Null else v)]) schemas)),
           Val (Arr (map (\<lambda>m. Obj [(''role'', Str (role_text (role m))), (''content'', Str (content m))]) messages)),
           Val (Obj [(''instructions'', case instructions aopts of None \<Rightarrow> Null | Some s \<Rightarrow> Str s),
                     (''maxSteps'', case maxSteps aopts of None \<Rightarrow> Null | Some n \<Rightarrow> Num n),
                     (''temperature'', case temperature aopts of None \<Rightarrow> Null | Some n \<Rightarrow> Num n),
                     (''topP'', case topP aopts of None \<Rightarrow> Null | Some n \<Rightarrow> Num n),
                     (''maxTokens'', case maxTokens aopts of None \<Rightarrow> Null | Some n \<Rightarrow> Num n),
                     (''seed'', case seed aopts of None \<Rightarrow> Null | Some n \<Rightarrow> Num n),
                     (''stopOnTool'', case stopOnTool aopts of None \<Rightarrow> Null | Some s \<Rightarrow> Str s),
                     (''outputSchema'', case outputSchema aopts of None \<Rightarrow> Null
                        | Some v \<Rightarrow> if nullish v then Null else v)]),
           Callback ex])
       napi_agent_result \<and>
   agentRun (createNapiBackend napi) n h schemas messages aopts =
     then_io
       (napi ''agentRun''
          [Val (Str n), Val h,
           Val (Arr (map (\<lambda>t. Obj [(''name'', Str (name t)), (''description'', Str (description t)),
                                    (''parameters'', case parameters t of None \<Rightarrow> Null
                                       | Some v \<Rightarrow> if nullish v then Null else v)]) schemas)),
           Val (Arr (map (\<lambda>m. Obj [(''role'', Str (role_text (role m))), (''content'', Str (content m))]) messages)),
           Val (Obj [(''instructions'', case instructions aopts of None \<Rightarrow> Null | Some s \<Rightarrow> Str s),
                     (''maxSteps'', case maxSteps aopts of None \<Rightarrow> Null | Some n \<Rightarrow> Num n),
                     (''temperature'', case temperature aopts of None \<Rightarrow> Null | Some n \<Rightarrow> Num n),
                     (''topP'', case topP aopts of None \<Rightarrow> Null | Some n \<Rightarrow> Num n),
                     (''maxTokens'', case maxTokens aopts of None \<Rightarrow> Null | Some n \<Rightarrow> Num n),
                     (''seed'', case seed aopts of None \<Rightarrow> Null | Some n \<Rightarrow> Num n),
                     (''stopOnTool'', case stopOnTool aopts of None \<Rightarrow> Null | Some s \<Rightarrow> Str s),
                     (''outputSchema'', case outputSchema aopts of None \<Rightarrow> Null
                        | Some v \<Rightarrow> if nullish v then Null else v)])])
       napi_agent_result"
  by (simp add: createNapiBackend_def napi_provider_options_def napi_messages_def napi_tools_def
      napi_agent_options_def coalesce_Str coalesce_Num coalesce_id)

subsection \<open>Marshalling under the WASM backend\<close>

lemma filter_field_Str:
  "filter (\<lambda>kv. snd kv \<noteq> Undefined) ((k, field Str x) # rest) =
     (case x of None \<Rightarrow> [] | Some s \<Rightarrow> [(k, Str s)]) @ filter (\<lambda>kv. snd kv \<noteq> Undefined) rest"
  by (simp add: field_def split: option.splits)

lemma filter_field_Num:
  "filter (\<lambda>kv. snd kv \<noteq> Undefined) ((k, field Num x) # rest) =
     (case x of None \<Rightarrow> [] | Some n \<Rightarrow> [(k, Num n)]) @ filter (\<lambda>kv. snd kv \<noteq> Undefined) rest"
  by (simp add: field_def split: option.splits)

lemma filter_field_id:
  "filter (\<lambda>kv. snd kv \<noteq> Undefined) ((k, field id x) # rest) =
     filter (\<lambda>kv. snd kv \<noteq> Undefined) (case x of None \<Rightarrow> [] | Some v \<Rightarrow> [(k, v)])
       @ filter (\<lambda>kv. snd kv \<noteq> Undefined) rest"
  by (simp add: field_def split: option.splits)

lemma filter_present_Str:
  "filter (\<lambda>kv. snd kv \<noteq> Undefined) (case x of None \<Rightarrow> [] | Some s \<Rightarrow> [(k, Str s)]) =
     (case x of None \<Rightarrow> [] | Some s \<Rightarrow> [(k, Str s)])"
  by (cases x) simp_all

lemma filter_present_Num:
  "filter (\<lambda>kv. snd kv \<noteq> Undefined) (case x of None \<Rightarrow> [] | Some n \<Rightarrow> [(k, Num n)]) =
     (case x of None \<Rightarrow> [] | Some n \<Rightarrow> [(k, Num n)])"
  by (cases x) simp_all

lemma wasm_options_filter:
  "filter (\<lambda>kv. snd kv \<noteq> Undefined)
          [(''instructions'', field Str (instructions aopts)),
           (''maxSteps'', field Num (maxSteps aopts)),
           (''temperature'', field Num (temperature aopts)),
           (''topP'', field Num (topP aopts)),
           (''maxTokens'', field Num (maxTokens aopts)),
           (''stopOnTool'', field Str (stopOnTool aopts)),
           (''outputSchema'', field id (outputSchema aopts))] =
   filter (\<lambda>kv. snd kv \<noteq> Undefined)
       ((case instructions aopts of None \<Rightarrow> [] | Some s \<Rightarrow> [(''instructions'', Str s)]) @
        (case maxSteps aopts of None \<Rightarrow> [] | Some n \<Rightarrow> [(''maxSteps'', Num n)]) @
        (case temperature aopts of None \<Rightarrow> [] | Some n \<Rightarrow> [(''temperature'', Num n)]) @
        (case topP aopts of None \<Rightarrow> [] | Some n \<Rightarrow> [(''topP'', Num n)]) @
        (case maxTokens aopts of None \<Rightarrow> [] | Some n \<Rightarrow> [(''maxTokens'', Num n)]) @
        (case stopOnTool aopts of None \<Rightarrow> [] | Some s \<Rightarrow> [(''stopOnTool'', Str s)]) @
        (case outputSchema aopts of None \<Rightarrow> [] | Some v \<Rightarrow> [(''outputSchema'', v)]))"
  by (simp only: filter_field_Str filter_field_Num filter_field_id filter_append
      filter_present_Str filter_present_Num filter.simps(1) append_Nil2)

lemma wasm_options_text:
  "JSON_stringify (wasm_agent_options aopts) =
     Str (json_text (Obj
       ((case instructions aopts of None \<Rightarrow> [] | Some s \<Rightarrow> [(''instructions'', Str s)]) @
        (case maxSteps aopts of None \<Rightarrow> [] | Some n \<Rightarrow> [(''maxSteps'', Num n)]) @
        (case temperature aopts of None \<Rightarrow> [] | Some n \<Rightarrow> [(''temperature'', Num n)]) @
        (case topP aopts of None \<Rightarrow> [] | Some n \<Rightarrow> [(''topP'', Num n)]) @
        (case maxTokens aopts of None \<Rightarrow> [] | Some n \<Rightarrow> [(''maxTokens'', Num n)]) @
        (case stopOnTool aopts of None \<Rightarrow> [] | Some s \<Rightarrow> [(''stopOnTool'', Str s)]) @
        (case outputSchema aopts of None \<Rightarrow> [] | Some v \<Rightarrow> [(''outputSchema'', v)]))))"
  unfolding JSON_stringify_def wasm_agent_options_def
  by (simp only: json_text.simps(7) jsval.distinct if_False wasm_options_filter)

lemma wasm_messages_text:
  "wasm_messages messages =
      Str (json_text (Arr (map (\<lambda>m. Obj [(''role'', Str (role_text (role m))),
                                          (''content'', Str (content m))]) messages)))"
  unfolding wasm_messages_def JSON_stringify_def by (simp only: jsval.distinct if_False)

text \<open>
  C8, as the claim states it, fails: the WASM backend does not put a call's arguments into
  one text, gives absent fields no sentinel, and passes neither the tool schemas nor the
  seed. Running an agent with one tool schema, no messages and options that hold only a
  seed passes the native module four arguments: the name and the handle as plain values,
  the text \<^verbatim>\<open>[]\<close> of the messages and the text \<^verbatim>\<open>{}\<close> of the options.
\<close>

theorem wasm_message_counterexample:
  "snd (agentRun (createWasmBackend (test_runtime [] []) (recorder (Str ''{}'')))
          ''helper'' (Num 7)
          [\<lparr>name = ''search'', description = ''web search'', parameters = None\<rparr>]
          []
          (no_options\<lparr>seed := Some 42\<rparr>) []) =
     [(''agentRun'', [Str ''helper'', Num 7, Str ''[]'', Str ''{}''])]"
  by (simp add: createWasmBackend_def wasm_agentRun_def then_io_def recorder_def arg_vals_def
      wasm_messages_def wasm_agent_options_def JSON_stringify_def no_options_def field_def join_def)

text \<open>
  C8, amended. Under the WASM backend only the message list and, for \<^verbatim>\<open>agentRun\<close>, an
  options object are serialized to JSON text; the other arguments are passed as plain
  positional values (provider type, model, API key and base URL; handle, temperature and
  maximal tokens; agent name and handle). An absent optional field gets no sentinel: as a
  positional argument it is \<^verbatim>\<open>undefined\<close>, and in the options text its key is left out.
  The options text of \<^verbatim>\<open>agentRun\<close> holds the fields that are present among instructions,
  maxSteps, temperature, topP, maxTokens, stopOnTool and outputSchema, and the call does not
  depend on the tool schemas.
\<close>

theorem wasm_marshalling:
  "createProvider (createWasmBackend rt wasm) ptype model options =
     wasm ''createProvider''
       [Val (Str ptype), Val (Str model), Val (Str (apiKey options)),
        Val (case baseUrl options of None \<Rightarrow> Undefined | Some s \<Rightarrow> Str s)] \<and>
   generate (createWasmBackend rt wasm) h messages temp maxTok =
     then_io
       (wasm ''generate''
          [Val h,
           Val (Str (json_text (Arr (map (\<lambda>m. Obj [(''role'', Str (role_text (role m))),
                                                   (''content'', Str (content m))]) messages)))),
           Val (case temp of None \<Rightarrow> Undefined | Some n \<Rightarrow> Num n),
           Val (case maxTok of None \<Rightarrow> Undefined | Some n \<Rightarrow> Num n)])
       (\<lambda>json. JSON_parse rt (to_string json)) \<and>
   agentRun (createWasmBackend rt wasm) n h schemas messages aopts =
     then_io
       (wasm ''agentRun''
          [Val (Str n), Val h,
           Val (Str (json_text (Arr (map (\<lambda>m. Obj [(''role'', Str (role_text (role m))),
                                                   (''content'', Str (content m))]) messages)))),
           Val (Str (json_text (Obj
             ((case instructions aopts of None \<Rightarrow> [] | Some s \<Rightarrow> [(''instructions'', Str s)]) @
              (case maxSteps aopts of None \<Rightarrow> [] | Some n \<Rightarrow> [(''maxSteps'', Num n)]) @
              (case temperature aopts of None \<Rightarrow> [] | Some n \<Rightarrow> [(''temperature'', Num n)]) @
              (case topP aopts of None \<Rightarrow> [] | Some n \<Rightarrow> [(''topP'', Num n)]) @
              (case maxTokens aopts of None \<Rightarrow> [] | Some n \<Rightarrow> [(''maxTokens'', Num n)]) @
              (case stopOnTool aopts of None \<Rightarrow> [] | Some s \<Rightarrow> [(''stopOnTool'', Str s)]) @
              (case outputSchema aopts of None \<Rightarrow> [] | Some v \<Rightarrow> [(''outputSchema'', v)])))))])
       (\<lambda>json. JSON_parse rt (to_string json))"
  unfolding createWasmBackend_def wasm_agentRun_def wasm_generate_def
  by (simp only: Backend.simps wasm_messages_text wasm_options_text coalesce_Str coalesce_Num)

subsection \<open>Running an agent on a destroyed provider\<close>

text \<open>
  C10. In a consistent world (every world a process can reach is one, by the lemmas on
  \<open>consistent\<close> above) whose agent's provider is destroyed, \<^verbatim>\<open>Agent.run\<close> fails for every
  message list with \<^verbatim>\<open>Provider has been destroyed\<close> and leaves the world exactly as it
  was, under every runtime: neither \<^verbatim>\<open>backend.agentRun\<close> nor
  \<^verbatim>\<open>backend.agentRunWithToolExecutor\<close> was called and no tool executor ran.
\<close>

theorem run_after_destroy_rejects:
  assumes "destroyed (providers w (agent_provider this))"
    and "consistent w"
  shows "Agent_run rt this messages w = (Inl (Error ''Provider has been destroyed''), w)"
proof -
  obtain backend where "backend_var w = Some backend"
    using assms by (auto simp: consistent_def)
  then have "getBackend rt w = (Inr backend, w)"
    by (simp add: getBackend_def)
  moreover have "Provider_getHandle (agent_provider this) w = Inl (Error ''Provider has been destroyed'')"
    using assms(1) by (simp add: Provider_getHandle_def)
  ultimately show ?thesis
    by (simp add: Agent_run_def Let_def)
qed

theorem run_after_destroy_rejects_witness:
  "Agent_run (test_runtime [] calls_known) (agent_with [tool_A])
     [\<lparr>role = User, content = ''hello''\<rparr>]
     (world_with (createNapiBackend (recorder Null)) True []) =
   (Inl (Error ''Provider has been destroyed''), world_with (createNapiBackend (recorder Null)) True [])"
proof -
  let ?w = "world_with (createNapiBackend (recorder Null)) True ([] :: call_log)"
  have d: "destroyed (providers ?w (agent_provider (agent_with [tool_A])))"
    by (simp add: world_with_def)
  have c: "consistent ?w"
    by (simp add: consistent_def world_with_def)
  show ?thesis
    using run_after_destroy_rejects [OF d c] by simp
qed

end
